theory Spec2Isabelle
  imports Main "HOL-Library.Word"
begin

section \<open>Data model\<close>

text \<open>
  The service of \<^verbatim>\<open>main.go\<close> keeps two MongoDB collections, \<^verbatim>\<open>users\<close> and
  \<^verbatim>\<open>books\<close>, and answers eight HTTP routes. An \<^verbatim>\<open>ObjectID\<close> is twelve bytes,
  read here as one 96-bit word.
\<close>

type_synonym ObjectID = "96 word"

text \<open>
  The \<^verbatim>\<open>borrower_id\<close> field of a stored book. The struct field is a pointer tagged
  \<^verbatim>\<open>omitempty\<close>: a nil pointer is left out of the inserted document (\<open>Omitted\<close>),
  \<^verbatim>\<open>$set\<close> with \<^verbatim>\<open>nil\<close> stores a BSON null (\<open>Null\<close>), and \<^verbatim>\<open>$set\<close> with
  an identifier stores it (\<open>Oid\<close>). Decoding a document into the struct gives the nil
  pointer for the first two.
\<close>

datatype borrower_id = Omitted | Null | Oid ObjectID

fun Decode_ptr :: "borrower_id \<Rightarrow> ObjectID option" where
  "Decode_ptr Omitted = None"
| "Decode_ptr Null = None"
| "Decode_ptr (Oid x) = Some x"

record User =
  ID :: ObjectID
  Username :: string
  Password :: string
  Books :: "ObjectID list"

record Book =
  ID :: ObjectID
  Title :: string
  BorrowerID :: borrower_id

text \<open>The two package-level collection handles, as the state every handler works on.\<close>

record db =
  userCollection :: "User list"
  bookCollection :: "Book list"

text \<open>The request bodies of the handlers, with the fields named by their JSON tags.\<close>

record credentials =
  username :: string
  password :: string

record book_request =
  title :: string

record lending_request =
  user_id :: string
  book_id :: string

text \<open>
  The messages of the responses. The source gives them in Turkish; the constructors
  spell them without diacritics.
\<close>

datatype msg =
    Gecersiz_JSON
  | Veritabani_hatasi
  | Kullanici_adi_zaten_mevcut
  | Sifre_hashlenemedi
  | Kullanici_eklenemedi
  | Kullanici_bulunamadi
  | Hatali_sifre
  | Giris_basarili
  | Gecersiz_kullanici_ID
  | Kullanici_silinemedi
  | Kullanici_silindi
  | Kitap_eklenemedi
  | Kitaplar_alinamadi
  | Kitaplar_parse_edilemedi
  | Gecersiz_user_id
  | Gecersiz_book_id
  | Kullanicinin_2_kitap_limiti_doldu
  | Kitap_bulunamadi
  | Kitap_zaten_odunc_alinmis
  | Kitap_guncellenemedi
  | Kullanici_guncellenemedi
  | Kitap_basariyla_odunc_alindi
  | Bu_kitap_bu_kullaniciya_ait_degil
  | Kitap_basariyla_iade_edildi

datatype body =
    Error msg
  | Message msg
  | Inserted_id ObjectID
  | Message_user_id msg ObjectID
  | User_json User
  | Books_json "Book list"
  | Cannot_route

record response =
  status :: nat
  body :: body

abbreviation StatusOK :: nat where "StatusOK \<equiv> 200"
abbreviation StatusCreated :: nat where "StatusCreated \<equiv> 201"
abbreviation StatusBadRequest :: nat where "StatusBadRequest \<equiv> 400"
abbreviation StatusUnauthorized :: nat where "StatusUnauthorized \<equiv> 401"
abbreviation StatusNotFound :: nat where "StatusNotFound \<equiv> 404"
abbreviation StatusInternalServerError :: nat where "StatusInternalServerError \<equiv> 500"

definition JSON :: "nat \<Rightarrow> body \<Rightarrow> response" where
  "JSON c b = \<lparr>status = c, body = b\<rparr>"

section \<open>What the handlers do not control\<close>

text \<open>
  Every store call runs under a five-second deadline and may return an error; bcrypt
  may refuse a password and salts its hashes; the driver picks the identifier of an
  inserted document. One \<open>env\<close> value fixes these outcomes for one request. A store
  call that returns an error is taken to have changed nothing.
\<close>

record env =
  count_err :: bool
  hash_result :: "string option"
  hash_matches :: bool
  new_id :: ObjectID
  insert_err :: bool
  find_user_err :: bool
  find_book_err :: bool
  update_book_err :: bool
  update_user_err :: bool
  rollback_err :: bool
  delete_err :: bool
  find_err :: bool
  cursor_err :: bool

section \<open>The driver and the store\<close>

text \<open>
  \<^verbatim>\<open>primitive.ObjectIDFromHex\<close>: exactly 24 characters, each a hexadecimal digit of
  either case.
\<close>

definition fromHexChar :: "char \<Rightarrow> nat option" where
  "fromHexChar c =
     (let n = (of_char c :: nat) in
      if 48 \<le> n \<and> n \<le> 57 then Some (n - 48)
      else if 97 \<le> n \<and> n \<le> 102 then Some (n - 97 + 10)
      else if 65 \<le> n \<and> n \<le> 70 then Some (n - 65 + 10)
      else None)"

fun hex_Decode :: "string \<Rightarrow> nat \<Rightarrow> nat option" where
  "hex_Decode [] acc = Some acc"
| "hex_Decode (c # cs) acc =
     (case fromHexChar c of
        None \<Rightarrow> None
      | Some d \<Rightarrow> hex_Decode cs (16 * acc + d))"

definition ObjectIDFromHex :: "string \<Rightarrow> ObjectID option" where
  "ObjectIDFromHex s =
     (if length s \<noteq> 24 then None else map_option of_nat (hex_Decode s 0))"

text \<open>
  The collection calls the handlers use. A collection is the list of its documents in
  insertion order; a filter is a predicate on documents; the first argument says
  whether the call fails, and \<open>None\<close> is a non-nil \<^verbatim>\<open>err\<close>.
  \<^verbatim>\<open>FindOne(...).Decode\<close> also returns an error when no document matches.
  \<^verbatim>\<open>UpdateOne\<close> changes the first document that matches and succeeds when none
  does.
\<close>

definition FindOne :: "bool \<Rightarrow> ('d \<Rightarrow> bool) \<Rightarrow> 'd list \<Rightarrow> 'd option" where
  "FindOne err flt coll = (if err then None else find flt coll)"

definition CountDocuments :: "bool \<Rightarrow> ('d \<Rightarrow> bool) \<Rightarrow> 'd list \<Rightarrow> nat option" where
  "CountDocuments err flt coll = (if err then None else Some (length (filter flt coll)))"

fun update_first :: "('d \<Rightarrow> bool) \<Rightarrow> ('d \<Rightarrow> 'd) \<Rightarrow> 'd list \<Rightarrow> 'd list" where
  "update_first flt upd [] = []"
| "update_first flt upd (d # ds) =
     (if flt d then upd d # ds else d # update_first flt upd ds)"

definition UpdateOne ::
  "bool \<Rightarrow> ('d \<Rightarrow> bool) \<Rightarrow> ('d \<Rightarrow> 'd) \<Rightarrow> 'd list \<Rightarrow> 'd list option" where
  "UpdateOne err flt upd coll = (if err then None else Some (update_first flt upd coll))"

fun delete_first :: "('d \<Rightarrow> bool) \<Rightarrow> 'd list \<Rightarrow> 'd list" where
  "delete_first flt [] = []"
| "delete_first flt (d # ds) = (if flt d then ds else d # delete_first flt ds)"

text \<open>\<^verbatim>\<open>DeleteOne\<close> returns the deleted count with the new collection.\<close>

definition DeleteOne :: "bool \<Rightarrow> ('d \<Rightarrow> bool) \<Rightarrow> 'd list \<Rightarrow> (nat \<times> 'd list) option" where
  "DeleteOne err flt coll =
     (if err then None
      else Some (if find flt coll = None then 0 else 1, delete_first flt coll))"

text \<open>
  \<^verbatim>\<open>InsertOne\<close> on a document whose \<^verbatim>\<open>_id\<close> is the zero value: the tag
  \<^verbatim>\<open>omitempty\<close> leaves the field out, the driver fills in the identifier it generates,
  and the store refuses an \<^verbatim>\<open>_id\<close> that the collection already holds.
\<close>

definition InsertOne_user :: "bool \<Rightarrow> ObjectID \<Rightarrow> User \<Rightarrow> User list \<Rightarrow> (ObjectID \<times> User list) option" where
  "InsertOne_user err generated doc coll =
     (let oid = (if User.ID doc = 0 then generated else User.ID doc) in
      if err \<or> oid \<in> User.ID ` set coll then None
      else Some (oid, coll @ [doc\<lparr>User.ID := oid\<rparr>]))"

definition InsertOne_book :: "bool \<Rightarrow> ObjectID \<Rightarrow> Book \<Rightarrow> Book list \<Rightarrow> (ObjectID \<times> Book list) option" where
  "InsertOne_book err generated doc coll =
     (let oid = (if Book.ID doc = 0 then generated else Book.ID doc) in
      if err \<or> oid \<in> Book.ID ` set coll then None
      else Some (oid, coll @ [doc\<lparr>Book.ID := oid\<rparr>]))"

text \<open>
  \<^verbatim>\<open>Find\<close> with the empty filter, then \<^verbatim>\<open>cursor.All\<close>; each of the two may
  fail with its own message.
\<close>

definition Find_All :: "bool \<Rightarrow> bool \<Rightarrow> 'd list \<Rightarrow> (msg + 'd list)" where
  "Find_All ferr cerr coll =
     (if ferr then Inl Kitaplar_alinamadi
      else if cerr then Inl Kitaplar_parse_edilemedi
      else Inr coll)"

section \<open>Passwords\<close>

text \<open>
  bcrypt is not modelled: the environment says which hash
  \<^verbatim>\<open>GenerateFromPassword\<close> returns, if any, and whether
  \<^verbatim>\<open>CompareHashAndPassword\<close> accepts.
\<close>

definition hashPassword :: "env \<Rightarrow> string \<Rightarrow> string option" where
  "hashPassword e pw = hash_result e"

definition checkPasswordHash :: "env \<Rightarrow> string \<Rightarrow> string \<Rightarrow> bool" where
  "checkPasswordHash e pw hashed = hash_matches e"

section \<open>Handlers\<close>

text \<open>
  Each handler takes the outcomes of its environment, the result of
  \<^verbatim>\<open>c.BodyParser\<close> (\<open>None\<close> when it returned an error) or the route parameter, and
  the collections; it returns the response and the collections afterwards.
\<close>

definition registerUser :: "env \<Rightarrow> credentials option \<Rightarrow> db \<Rightarrow> response \<times> db" where
  "registerUser e parsed s =
    (case parsed of
       None \<Rightarrow> (JSON StatusBadRequest (Error Gecersiz_JSON), s)
     | Some req \<Rightarrow>
    (case CountDocuments (count_err e) (\<lambda>u. Username u = username req) (userCollection s) of
       None \<Rightarrow> (JSON StatusInternalServerError (Error Veritabani_hatasi), s)
     | Some count \<Rightarrow>
    if count > 0 then (JSON StatusBadRequest (Error Kullanici_adi_zaten_mevcut), s)
    else
    (case hashPassword e (password req) of
       None \<Rightarrow> (JSON StatusInternalServerError (Error Sifre_hashlenemedi), s)
     | Some hashed \<Rightarrow>
    (let user = \<lparr>User.ID = 0, Username = username req, Password = hashed, Books = []\<rparr> in
     case InsertOne_user (insert_err e) (new_id e) user (userCollection s) of
       None \<Rightarrow> (JSON StatusInternalServerError (Error Kullanici_eklenemedi), s)
     | Some (InsertedID, users') \<Rightarrow>
         (JSON StatusCreated (Inserted_id InsertedID), s\<lparr>userCollection := users'\<rparr>)))))"

definition loginUser :: "env \<Rightarrow> credentials option \<Rightarrow> db \<Rightarrow> response \<times> db" where
  "loginUser e parsed s =
    (case parsed of
       None \<Rightarrow> (JSON StatusBadRequest (Error Gecersiz_JSON), s)
     | Some req \<Rightarrow>
    (case FindOne (find_user_err e) (\<lambda>u. Username u = username req) (userCollection s) of
       None \<Rightarrow> (JSON StatusNotFound (Error Kullanici_bulunamadi), s)
     | Some user \<Rightarrow>
    if \<not> checkPasswordHash e (password req) (Password user)
    then (JSON StatusUnauthorized (Error Hatali_sifre), s)
    else (JSON StatusOK (Message_user_id Giris_basarili (User.ID user)), s)))"

definition getUser :: "env \<Rightarrow> string \<Rightarrow> db \<Rightarrow> response \<times> db" where
  "getUser e ident s =
    (case ObjectIDFromHex ident of
       None \<Rightarrow> (JSON StatusBadRequest (Error Gecersiz_kullanici_ID), s)
     | Some objID \<Rightarrow>
    (case FindOne (find_user_err e) (\<lambda>u. User.ID u = objID) (userCollection s) of
       None \<Rightarrow> (JSON StatusNotFound (Error Kullanici_bulunamadi), s)
     | Some user \<Rightarrow> (JSON StatusOK (User_json (user\<lparr>Password := ''''\<rparr>)), s)))"

definition deleteUser :: "env \<Rightarrow> string \<Rightarrow> db \<Rightarrow> response \<times> db" where
  "deleteUser e ident s =
    (case ObjectIDFromHex ident of
       None \<Rightarrow> (JSON StatusBadRequest (Error Gecersiz_kullanici_ID), s)
     | Some objID \<Rightarrow>
    (case DeleteOne (delete_err e) (\<lambda>u. User.ID u = objID) (userCollection s) of
       None \<Rightarrow> (JSON StatusInternalServerError (Error Kullanici_silinemedi), s)
     | Some (DeletedCount, users') \<Rightarrow>
    if DeletedCount = 0 then (JSON StatusNotFound (Error Kullanici_bulunamadi), s)
    else (JSON StatusOK (Message Kullanici_silindi), s\<lparr>userCollection := users'\<rparr>)))"

definition addBook :: "env \<Rightarrow> book_request option \<Rightarrow> db \<Rightarrow> response \<times> db" where
  "addBook e parsed s =
    (case parsed of
       None \<Rightarrow> (JSON StatusBadRequest (Error Gecersiz_JSON), s)
     | Some req \<Rightarrow>
    (let book = \<lparr>Book.ID = 0, Title = title req, BorrowerID = Omitted\<rparr> in
     case InsertOne_book (insert_err e) (new_id e) book (bookCollection s) of
       None \<Rightarrow> (JSON StatusInternalServerError (Error Kitap_eklenemedi), s)
     | Some (InsertedID, books') \<Rightarrow>
         (JSON StatusCreated (Inserted_id InsertedID), s\<lparr>bookCollection := books'\<rparr>)))"

definition listBooks :: "env \<Rightarrow> db \<Rightarrow> response \<times> db" where
  "listBooks e s =
    (case Find_All (find_err e) (cursor_err e) (bookCollection s) of
       Inl m \<Rightarrow> (JSON StatusInternalServerError (Error m), s)
     | Inr books \<Rightarrow> (JSON StatusOK (Books_json books), s))"

definition borrowBook :: "env \<Rightarrow> lending_request option \<Rightarrow> db \<Rightarrow> response \<times> db" where
  "borrowBook e parsed s =
    (case parsed of
       None \<Rightarrow> (JSON StatusBadRequest (Error Gecersiz_JSON), s)
     | Some req \<Rightarrow>
    (case ObjectIDFromHex (user_id req) of
       None \<Rightarrow> (JSON StatusBadRequest (Error Gecersiz_user_id), s)
     | Some userObjID \<Rightarrow>
    (case ObjectIDFromHex (book_id req) of
       None \<Rightarrow> (JSON StatusBadRequest (Error Gecersiz_book_id), s)
     | Some bookObjID \<Rightarrow>
    (case FindOne (find_user_err e) (\<lambda>u. User.ID u = userObjID) (userCollection s) of
       None \<Rightarrow> (JSON StatusNotFound (Error Kullanici_bulunamadi), s)
     | Some user \<Rightarrow>
    if length (Books user) \<ge> 2
    then (JSON StatusBadRequest (Error Kullanicinin_2_kitap_limiti_doldu), s)
    else
    (case FindOne (find_book_err e) (\<lambda>b. Book.ID b = bookObjID) (bookCollection s) of
       None \<Rightarrow> (JSON StatusNotFound (Error Kitap_bulunamadi), s)
     | Some book \<Rightarrow>
    if Decode_ptr (BorrowerID book) \<noteq> None
    then (JSON StatusBadRequest (Error Kitap_zaten_odunc_alinmis), s)
    else
    (case UpdateOne (update_book_err e) (\<lambda>b. Book.ID b = bookObjID)
            (\<lambda>b. b\<lparr>BorrowerID := Oid userObjID\<rparr>) (bookCollection s) of
       None \<Rightarrow> (JSON StatusInternalServerError (Error Kitap_guncellenemedi), s)
     | Some books1 \<Rightarrow>
    (case UpdateOne (update_user_err e) (\<lambda>u. User.ID u = userObjID)
            (\<lambda>u. u\<lparr>Books := Books u @ [bookObjID]\<rparr>) (userCollection s) of
       None \<Rightarrow>
         (JSON StatusInternalServerError (Error Kullanici_guncellenemedi),
          s\<lparr>bookCollection :=
              (case UpdateOne (rollback_err e) (\<lambda>b. Book.ID b = bookObjID)
                      (\<lambda>b. b\<lparr>BorrowerID := Null\<rparr>) books1 of
                 None \<Rightarrow> books1
               | Some books2 \<Rightarrow> books2)\<rparr>)
     | Some users1 \<Rightarrow>
         (JSON StatusOK (Message Kitap_basariyla_odunc_alindi),
          s\<lparr>bookCollection := books1, userCollection := users1\<rparr>))))))))"

definition returnBook :: "env \<Rightarrow> lending_request option \<Rightarrow> db \<Rightarrow> response \<times> db" where
  "returnBook e parsed s =
    (case parsed of
       None \<Rightarrow> (JSON StatusBadRequest (Error Gecersiz_JSON), s)
     | Some req \<Rightarrow>
    (case ObjectIDFromHex (user_id req) of
       None \<Rightarrow> (JSON StatusBadRequest (Error Gecersiz_user_id), s)
     | Some userObjID \<Rightarrow>
    (case ObjectIDFromHex (book_id req) of
       None \<Rightarrow> (JSON StatusBadRequest (Error Gecersiz_book_id), s)
     | Some bookObjID \<Rightarrow>
    (case FindOne (find_book_err e) (\<lambda>b. Book.ID b = bookObjID) (bookCollection s) of
       None \<Rightarrow> (JSON StatusNotFound (Error Kitap_bulunamadi), s)
     | Some book \<Rightarrow>
    if Decode_ptr (BorrowerID book) = None \<or> Decode_ptr (BorrowerID book) \<noteq> Some userObjID
    then (JSON StatusBadRequest (Error Bu_kitap_bu_kullaniciya_ait_degil), s)
    else
    (case UpdateOne (update_book_err e) (\<lambda>b. Book.ID b = bookObjID)
            (\<lambda>b. b\<lparr>BorrowerID := Null\<rparr>) (bookCollection s) of
       None \<Rightarrow> (JSON StatusInternalServerError (Error Kitap_guncellenemedi), s)
     | Some books1 \<Rightarrow>
    (case UpdateOne (update_user_err e) (\<lambda>u. User.ID u = userObjID)
            (\<lambda>u. u\<lparr>Books := removeAll bookObjID (Books u)\<rparr>) (userCollection s) of
       None \<Rightarrow>
         (JSON StatusInternalServerError (Error Kullanici_guncellenemedi),
          s\<lparr>bookCollection := books1\<rparr>)
     | Some users1 \<Rightarrow>
         (JSON StatusOK (Message Kitap_basariyla_iade_edildi),
          s\<lparr>bookCollection := books1, userCollection := users1\<rparr>)))))))"

section \<open>The router\<close>

text \<open>
  The eight routes that \<^verbatim>\<open>main\<close> registers. The string of \<open>GET_user\<close> and
  \<open>DELETE_user\<close> is what follows \<^verbatim>\<open>/user/\<close> in the path, a trailing slash
  dropped. The pattern \<^verbatim>\<open>/user/:id\<close> matches one non-empty segment: when the
  string is empty or holds a slash, no handler runs and the router itself answers 404
  (\<open>Cannot_route\<close>).
\<close>

datatype request =
    POST_register "credentials option"
  | POST_login "credentials option"
  | GET_user string
  | DELETE_user string
  | POST_book "book_request option"
  | GET_books
  | POST_borrow "lending_request option"
  | POST_return "lending_request option"

fun route :: "env \<Rightarrow> request \<Rightarrow> db \<Rightarrow> response \<times> db" where
  "route e (POST_register b) s = registerUser e b s"
| "route e (POST_login b) s = loginUser e b s"
| "route e (GET_user i) s =
     (if i = [] \<or> CHR ''/'' \<in> set i
      then (\<lparr>status = StatusNotFound, body = Cannot_route\<rparr>, s)
      else getUser e i s)"
| "route e (DELETE_user i) s =
     (if i = [] \<or> CHR ''/'' \<in> set i
      then (\<lparr>status = StatusNotFound, body = Cannot_route\<rparr>, s)
      else deleteUser e i s)"
| "route e (POST_book b) s = addBook e b s"
| "route e GET_books s = listBooks e s"
| "route e (POST_borrow b) s = borrowBook e b s"
| "route e (POST_return b) s = returnBook e b s"

text \<open>
  Requests served one at a time, whatever their outcome: each handler runs to its
  response before the next request starts.
\<close>

fun serve :: "(env \<times> request) list \<Rightarrow> db \<Rightarrow> db" where
  "serve [] s = s"
| "serve ((e, r) # rest) s = serve rest (snd (route e r s))"

text \<open>
  An identifier occurs in the collections when a document has it as its \<^verbatim>\<open>_id\<close>,
  a user lists it, or a book names it as its borrower.
\<close>

definition occurs :: "ObjectID \<Rightarrow> db \<Rightarrow> bool" where
  "occurs x s =
     (x \<in> User.ID ` set (userCollection s) \<or> x \<in> Book.ID ` set (bookCollection s)
      \<or> (\<exists>u \<in> set (userCollection s). x \<in> set (Books u))
      \<or> (\<exists>b \<in> set (bookCollection s). Decode_ptr (BorrowerID b) = Some x))"

text \<open>
  Requests served one at a time as long as no response is a 500 (no store or hashing
  failure interrupted a handler) and the identifier that the driver generates for the
  request does not occur in the collections yet; \<open>None\<close> otherwise.
\<close>

fun serve_ok :: "(env \<times> request) list \<Rightarrow> db \<Rightarrow> db option" where
  "serve_ok [] s = Some s"
| "serve_ok ((e, r) # rest) s =
     (if occurs (new_id e) s \<or> status (fst (route e r s)) = StatusInternalServerError
      then None
      else serve_ok rest (snd (route e r s)))"

section \<open>Requests in flight\<close>

text \<open>
  The program does not serve one request at a time: the server runs every handler as
  soon as its request arrives, and the store calls of two handlers interleave. Each
  store call is atomic; nothing in \<^verbatim>\<open>borrowBook\<close> ties its calls together, and its
  two updates filter on \<^verbatim>\<open>_id\<close> alone. A borrow in flight is at one of these points:
  received, user read and below the limit, book read and free, borrower written, the
  push failed, answered.
\<close>

datatype borrow_task =
    Received "lending_request option"
  | Find_book ObjectID ObjectID
  | Set_borrower ObjectID ObjectID
  | Push_book ObjectID ObjectID
  | Roll_back ObjectID
  | Answered response

text \<open>One step of \<^verbatim>\<open>borrowBook\<close>: the code up to and including its next store call.\<close>

fun borrow_step :: "env \<Rightarrow> borrow_task \<Rightarrow> db \<Rightarrow> borrow_task \<times> db" where
  "borrow_step e (Received parsed) s =
    (case parsed of
       None \<Rightarrow> (Answered (JSON StatusBadRequest (Error Gecersiz_JSON)), s)
     | Some req \<Rightarrow>
    (case ObjectIDFromHex (user_id req) of
       None \<Rightarrow> (Answered (JSON StatusBadRequest (Error Gecersiz_user_id)), s)
     | Some userObjID \<Rightarrow>
    (case ObjectIDFromHex (book_id req) of
       None \<Rightarrow> (Answered (JSON StatusBadRequest (Error Gecersiz_book_id)), s)
     | Some bookObjID \<Rightarrow>
    (case FindOne (find_user_err e) (\<lambda>u. User.ID u = userObjID) (userCollection s) of
       None \<Rightarrow> (Answered (JSON StatusNotFound (Error Kullanici_bulunamadi)), s)
     | Some user \<Rightarrow>
    if length (Books user) \<ge> 2
    then (Answered (JSON StatusBadRequest (Error Kullanicinin_2_kitap_limiti_doldu)), s)
    else (Find_book userObjID bookObjID, s)))))"
| "borrow_step e (Find_book userObjID bookObjID) s =
    (case FindOne (find_book_err e) (\<lambda>b. Book.ID b = bookObjID) (bookCollection s) of
       None \<Rightarrow> (Answered (JSON StatusNotFound (Error Kitap_bulunamadi)), s)
     | Some book \<Rightarrow>
    if Decode_ptr (BorrowerID book) \<noteq> None
    then (Answered (JSON StatusBadRequest (Error Kitap_zaten_odunc_alinmis)), s)
    else (Set_borrower userObjID bookObjID, s))"
| "borrow_step e (Set_borrower userObjID bookObjID) s =
    (case UpdateOne (update_book_err e) (\<lambda>b. Book.ID b = bookObjID)
            (\<lambda>b. b\<lparr>BorrowerID := Oid userObjID\<rparr>) (bookCollection s) of
       None \<Rightarrow> (Answered (JSON StatusInternalServerError (Error Kitap_guncellenemedi)), s)
     | Some books1 \<Rightarrow> (Push_book userObjID bookObjID, s\<lparr>bookCollection := books1\<rparr>))"
| "borrow_step e (Push_book userObjID bookObjID) s =
    (case UpdateOne (update_user_err e) (\<lambda>u. User.ID u = userObjID)
            (\<lambda>u. u\<lparr>Books := Books u @ [bookObjID]\<rparr>) (userCollection s) of
       None \<Rightarrow> (Roll_back bookObjID, s)
     | Some users1 \<Rightarrow>
         (Answered (JSON StatusOK (Message Kitap_basariyla_odunc_alindi)),
          s\<lparr>userCollection := users1\<rparr>))"
| "borrow_step e (Roll_back bookObjID) s =
    (Answered (JSON StatusInternalServerError (Error Kullanici_guncellenemedi)),
     s\<lparr>bookCollection :=
         (case UpdateOne (rollback_err e) (\<lambda>b. Book.ID b = bookObjID)
                 (\<lambda>b. b\<lparr>BorrowerID := Null\<rparr>) (bookCollection s) of
            None \<Rightarrow> bookCollection s
          | Some books2 \<Rightarrow> books2)\<rparr>)"
| "borrow_step e (Answered r) s = (Answered r, s)"

fun borrow_steps :: "nat \<Rightarrow> env \<Rightarrow> borrow_task \<Rightarrow> db \<Rightarrow> borrow_task \<times> db" where
  "borrow_steps 0 e t s = (t, s)"
| "borrow_steps (Suc n) e t s =
     (case borrow_step e t s of (t', s') \<Rightarrow> borrow_steps n e t' s')"

text \<open>
  Two borrows in flight on the same collections, and a schedule that says which of
  them takes the next step.
\<close>

datatype turn = First | Second

fun interleave ::
  "turn list \<Rightarrow> env \<times> borrow_task \<Rightarrow> env \<times> borrow_task \<Rightarrow> db
     \<Rightarrow> borrow_task \<times> borrow_task \<times> db" where
  "interleave [] (e1, t1) (e2, t2) s = (t1, t2, s)"
| "interleave (First # sched) (e1, t1) (e2, t2) s =
     (case borrow_step e1 t1 s of (t1', s') \<Rightarrow> interleave sched (e1, t1') (e2, t2) s')"
| "interleave (Second # sched) (e1, t1) (e2, t2) s =
     (case borrow_step e2 t2 s of (t2', s') \<Rightarrow> interleave sched (e1, t1) (e2, t2') s')"

section \<open>Properties of the collections\<close>

text \<open>
  The relationship between the two collections: for every stored book and every stored
  user, the book's borrower reads as that user's identifier exactly when the user's list
  holds the book's identifier.
\<close>

definition relationship :: "db \<Rightarrow> bool" where
  "relationship s =
     (\<forall>b \<in> set (bookCollection s). \<forall>u \<in> set (userCollection s).
        (Decode_ptr (BorrowerID b) = Some (User.ID u)) = (Book.ID b \<in> set (Books u)))"

text \<open>The store keeps \<^verbatim>\<open>_id\<close> unique within a collection.\<close>

definition unique_ids :: "db \<Rightarrow> bool" where
  "unique_ids s =
     (distinct (map User.ID (userCollection s)) \<and> distinct (map Book.ID (bookCollection s)))"

definition consistent :: "db \<Rightarrow> bool" where
  "consistent s = (relationship s \<and> unique_ids s)"

text \<open>The lending limit, as a property of the users collection.\<close>

definition within_limit :: "db \<Rightarrow> bool" where
  "within_limit s = (\<forall>u \<in> set (userCollection s). length (Books u) \<le> 2)"

text \<open>
  Two book collections that decode to the same structs: they differ at most in a
  borrower stored as null in one and left out in the other.
\<close>

definition same_reading :: "Book list \<Rightarrow> Book list \<Rightarrow> bool" where
  "same_reading xs ys =
     list_all2 (\<lambda>a b. Book.ID a = Book.ID b \<and> Title a = Title b
                  \<and> Decode_ptr (BorrowerID a) = Decode_ptr (BorrowerID b)) xs ys"

section \<open>A small library\<close>

text \<open>
  An environment in which nothing fails, generating the given identifier, and a store
  with three users and four books: alice holds Dune, carol holds Faust and Germinal,
  bob holds nothing and Emma is on the shelf.
\<close>

definition quiet :: "ObjectID \<Rightarrow> env" where
  "quiet n =
     \<lparr>count_err = False, hash_result = Some ''$2a$10$N9qo8uLOickgx2ZMRZoMye'',
      hash_matches = True, new_id = n, insert_err = False, find_user_err = False,
      find_book_err = False, update_book_err = False, update_user_err = False,
      rollback_err = False, delete_err = False, find_err = False, cursor_err = False\<rparr>"

definition hex_alice :: string where "hex_alice = ''000000000000000000000001''"
definition hex_bob :: string where "hex_bob = ''000000000000000000000002''"
definition hex_carol :: string where "hex_carol = ''000000000000000000000003''"
definition hex_dune :: string where "hex_dune = ''00000000000000000000000a''"
definition hex_emma :: string where "hex_emma = ''00000000000000000000000B''"
definition hex_faust :: string where "hex_faust = ''00000000000000000000000c''"
definition hex_germinal :: string where "hex_germinal = ''00000000000000000000000d''"
definition hex_unknown :: string where "hex_unknown = ''0000000000000000000000ff''"

definition alice :: User where
  "alice = \<lparr>User.ID = 1, Username = ''alice'', Password = ''$2a$10$a'', Books = [10]\<rparr>"
definition bob :: User where
  "bob = \<lparr>User.ID = 2, Username = ''bob'', Password = ''$2a$10$b'', Books = []\<rparr>"
definition carol :: User where
  "carol = \<lparr>User.ID = 3, Username = ''carol'', Password = ''$2a$10$c'', Books = [12, 13]\<rparr>"

definition dune :: Book where
  "dune = \<lparr>Book.ID = 10, Title = ''Dune'', BorrowerID = Oid 1\<rparr>"
definition emma :: Book where
  "emma = \<lparr>Book.ID = 11, Title = ''Emma'', BorrowerID = Omitted\<rparr>"
definition faust :: Book where
  "faust = \<lparr>Book.ID = 12, Title = ''Faust'', BorrowerID = Oid 3\<rparr>"
definition germinal :: Book where
  "germinal = \<lparr>Book.ID = 13, Title = ''Germinal'', BorrowerID = Oid 3\<rparr>"

definition library :: db where
  "library = \<lparr>userCollection = [alice, bob, carol],
              bookCollection = [dune, emma, faust, germinal]\<rparr>"

definition empty_db :: db where
  "empty_db = \<lparr>userCollection = [], bookCollection = []\<rparr>"

text \<open>
  A store in which bob's list still names Emma although Emma has no borrower, as a
  return leaves it when its second write fails.
\<close>

definition stale :: db where
  "stale = \<lparr>userCollection = [bob\<lparr>Books := [11]\<rparr>], bookCollection = [emma]\<rparr>"

text \<open>The library with one more book on the shelf.\<close>

definition hex_hamlet :: string where "hex_hamlet = ''00000000000000000000000e''"

definition hamlet :: Book where
  "hamlet = \<lparr>Book.ID = 14, Title = ''Hamlet'', BorrowerID = Omitted\<rparr>"

definition reading_room :: db where
  "reading_room = \<lparr>userCollection = [alice, bob, carol],
                   bookCollection = [dune, emma, faust, germinal, hamlet]\<rparr>"

text \<open>
  A schedule for two borrows in which both read the user and the book before either
  writes.
\<close>

definition reads_first :: "turn list" where
  "reads_first = [First, Second, First, Second, First, First, Second, Second]"

text \<open>The library after alice's user document was deleted: Dune still names her.\<close>

definition orphaned :: db where
  "orphaned = \<lparr>userCollection = [bob, carol],
               bookCollection = [dune, emma, faust, germinal]\<rparr>"

text \<open>
  Thirteen requests on an empty store, none of them failing in the store, and the
  collections they leave behind.
\<close>

definition session :: "(env \<times> request) list" where
  "session =
     [(quiet 1, POST_register (Some \<lparr>username = ''alice'', password = ''pw1''\<rparr>)),
      (quiet 10, POST_book (Some \<lparr>title = ''Dune''\<rparr>)),
      (quiet 11, POST_book (Some \<lparr>title = ''Emma''\<rparr>)),
      (quiet 12, POST_book (Some \<lparr>title = ''Faust''\<rparr>)),
      (quiet 20, POST_borrow (Some \<lparr>user_id = hex_alice, book_id = hex_dune\<rparr>)),
      (quiet 21, POST_borrow (Some \<lparr>user_id = hex_alice, book_id = hex_emma\<rparr>)),
      (quiet 22, POST_borrow (Some \<lparr>user_id = hex_alice, book_id = hex_faust\<rparr>)),
      (quiet 23, POST_return (Some \<lparr>user_id = hex_alice, book_id = hex_dune\<rparr>)),
      (quiet 24, DELETE_user hex_alice),
      (quiet 2, POST_register (Some \<lparr>username = ''bob'', password = ''pw2''\<rparr>)),
      (quiet 25, POST_borrow (Some \<lparr>user_id = hex_bob, book_id = hex_emma\<rparr>)),
      (quiet 26, POST_borrow (Some \<lparr>user_id = hex_bob, book_id = hex_dune\<rparr>)),
      (quiet 27, POST_return (Some \<lparr>user_id = hex_alice, book_id = hex_emma\<rparr>))]"

definition closing :: db where
  "closing =
     \<lparr>userCollection =
        [\<lparr>User.ID = 2, Username = ''bob'', Password = ''$2a$10$N9qo8uLOickgx2ZMRZoMye'',
          Books = [10]\<rparr>],
      bookCollection =
        [\<lparr>Book.ID = 10, Title = ''Dune'', BorrowerID = Oid 2\<rparr>,
         \<lparr>Book.ID = 11, Title = ''Emma'', BorrowerID = Null\<rparr>,
         \<lparr>Book.ID = 12, Title = ''Faust'', BorrowerID = Omitted\<rparr>]\<rparr>"

lemmas examples =
  quiet_def hex_alice_def hex_bob_def hex_carol_def hex_dune_def hex_emma_def
  hex_faust_def hex_germinal_def hex_unknown_def alice_def bob_def carol_def dune_def
  emma_def faust_def germinal_def library_def empty_db_def stale_def orphaned_def
  session_def closing_def hex_hamlet_def hamlet_def reading_room_def reads_first_def

lemmas handlers =
  registerUser_def loginUser_def getUser_def deleteUser_def addBook_def listBooks_def
  borrowBook_def returnBook_def JSON_def FindOne_def CountDocuments_def UpdateOne_def
  DeleteOne_def InsertOne_user_def InsertOne_book_def Find_All_def hashPassword_def
  checkPasswordHash_def ObjectIDFromHex_def fromHexChar_def

section \<open>Facts about the store calls\<close>

lemma find_Some_set: "find p xs = Some x \<Longrightarrow> x \<in> set xs \<and> p x"
  by (induction xs) (auto split: if_splits)

lemma update_first_none: "find p xs = None \<Longrightarrow> update_first p f xs = xs"
  by (induction xs) (auto split: if_splits)

lemma update_first_fixed: "find p xs = Some x \<Longrightarrow> f x = x \<Longrightarrow> update_first p f xs = xs"
  by (induction xs) (auto split: if_splits)

lemma update_first_twice:
  "(\<And>d. p d \<Longrightarrow> p (f d)) \<Longrightarrow>
   update_first p g (update_first p f xs) = update_first p (\<lambda>d. g (f d)) xs"
  by (induction xs) auto

lemma find_update_first:
  "find p xs = Some x \<Longrightarrow> p (f x) \<Longrightarrow> find p (update_first p f xs) = Some (f x)"
  by (induction xs) (auto split: if_splits)

lemma update_first_ids:
  "(\<And>d. idf (f d) = idf d) \<Longrightarrow> map idf (update_first p f xs) = map idf xs"
  by (induction xs) auto

lemma update_first_all:
  "\<forall>y \<in> set xs. P y \<Longrightarrow> (\<And>x. find p xs = Some x \<Longrightarrow> P (f x)) \<Longrightarrow>
   \<forall>y \<in> set (update_first p f xs). P y"
  by (induction xs) (auto split: if_splits)

lemma update_first_distinct:
  "distinct (map idf xs) \<Longrightarrow>
   update_first (\<lambda>d. idf d = k) f xs = map (\<lambda>d. if idf d = k then f d else d) xs"
proof (induction xs)
  case Nil
  then show ?case by simp
next
  case (Cons d ds)
  show ?case
  proof (cases "idf d = k")
    case True
    from Cons.prems have "idf d \<notin> idf ` set ds" by simp
    with True have "\<forall>y \<in> set ds. idf y \<noteq> k" by blast
    then have "map (\<lambda>d. if idf d = k then f d else d) ds = ds"
      by (simp add: map_idI)
    with True show ?thesis by simp
  next
    case False
    with Cons show ?thesis by simp
  qed
qed

lemma delete_first_subset: "set (delete_first p xs) \<subseteq> set xs"
  by (induction xs) auto

lemma delete_first_distinct:
  "distinct (map idf xs) \<Longrightarrow> distinct (map idf (delete_first p xs))"
proof (induction xs)
  case Nil
  then show ?case by simp
next
  case (Cons d ds)
  have "idf ` set (delete_first p ds) \<subseteq> idf ` set ds"
    using delete_first_subset [of p ds] by blast
  with Cons show ?case by auto
qed

lemma hex_Decode_None:
  "hex_Decode cs acc = None \<longleftrightarrow> (\<exists>c \<in> set cs. fromHexChar c = None)"
  by (induction cs arbitrary: acc) (auto split: option.splits)

lemma ObjectIDFromHex_None:
  "ObjectIDFromHex cs = None \<longleftrightarrow> length cs \<noteq> 24 \<or> (\<exists>c \<in> set cs. fromHexChar c = None)"
  by (simp add: ObjectIDFromHex_def hex_Decode_None)

lemma same_reading_refl: "same_reading xs xs"
  by (simp add: same_reading_def list_all2_same)

lemma same_reading_update_first:
  "(\<And>x. find p xs = Some x \<Longrightarrow> Book.ID (f x) = Book.ID x \<and> Title (f x) = Title x
        \<and> Decode_ptr (BorrowerID (f x)) = Decode_ptr (BorrowerID x)) \<Longrightarrow>
   same_reading (update_first p f xs) xs"
proof (induction xs)
  case Nil
  then show ?case by (simp add: same_reading_def)
next
  case (Cons d ds)
  show ?case
  proof (cases "p d")
    case True
    with Cons.prems [of d] show ?thesis
      using same_reading_refl [of ds] by (simp add: same_reading_def)
  next
    case False
    with Cons.prems have "\<And>x. find p ds = Some x \<Longrightarrow> Book.ID (f x) = Book.ID x
        \<and> Title (f x) = Title x \<and> Decode_ptr (BorrowerID (f x)) = Decode_ptr (BorrowerID x)"
      by simp
    from Cons.IH [OF this] False show ?thesis by (simp add: same_reading_def)
  qed
qed

section \<open>Facts about the handlers\<close>

text \<open>
  A borrow either leaves the collections as they were, or answers 500, or performs both
  of its writes.
\<close>

lemma borrowBook_outcome:
  "snd (borrowBook e p s) = s
   \<or> status (fst (borrowBook e p s)) = StatusInternalServerError
   \<or> (\<exists>req uid bid user book.
         p = Some req \<and> ObjectIDFromHex (user_id req) = Some uid
         \<and> ObjectIDFromHex (book_id req) = Some bid
         \<and> find (\<lambda>u. User.ID u = uid) (userCollection s) = Some user
         \<and> length (Books user) < 2
         \<and> find (\<lambda>b. Book.ID b = bid) (bookCollection s) = Some book
         \<and> Decode_ptr (BorrowerID book) = None
         \<and> fst (borrowBook e p s) = JSON StatusOK (Message Kitap_basariyla_odunc_alindi)
         \<and> snd (borrowBook e p s) =
             s\<lparr>bookCollection := update_first (\<lambda>b. Book.ID b = bid)
                                   (\<lambda>b. b\<lparr>BorrowerID := Oid uid\<rparr>) (bookCollection s),
               userCollection := update_first (\<lambda>u. User.ID u = uid)
                                   (\<lambda>u. u\<lparr>Books := Books u @ [bid]\<rparr>) (userCollection s)\<rparr>)"
  by (auto simp: borrowBook_def FindOne_def UpdateOne_def JSON_def split: option.splits if_splits)

lemma borrowBook_OK:
  assumes "status (fst (borrowBook e (Some req) s)) = StatusOK"
  obtains uid bid user book where
    "ObjectIDFromHex (user_id req) = Some uid" "ObjectIDFromHex (book_id req) = Some bid"
    "find (\<lambda>u. User.ID u = uid) (userCollection s) = Some user"
    "find (\<lambda>b. Book.ID b = bid) (bookCollection s) = Some book"
    "Decode_ptr (BorrowerID book) = None"
    "snd (borrowBook e (Some req) s) =
       s\<lparr>bookCollection := update_first (\<lambda>b. Book.ID b = bid)
                             (\<lambda>b. b\<lparr>BorrowerID := Oid uid\<rparr>) (bookCollection s),
         userCollection := update_first (\<lambda>u. User.ID u = uid)
                             (\<lambda>u. u\<lparr>Books := Books u @ [bid]\<rparr>) (userCollection s)\<rparr>"
  using assms
  by (auto simp: borrowBook_def FindOne_def UpdateOne_def JSON_def split: option.splits if_splits)

text \<open>A return has the same three outcomes.\<close>

lemma returnBook_outcome:
  "snd (returnBook e p s) = s
   \<or> status (fst (returnBook e p s)) = StatusInternalServerError
   \<or> (\<exists>req uid bid book.
         p = Some req \<and> ObjectIDFromHex (user_id req) = Some uid
         \<and> ObjectIDFromHex (book_id req) = Some bid
         \<and> find (\<lambda>b. Book.ID b = bid) (bookCollection s) = Some book
         \<and> Decode_ptr (BorrowerID book) = Some uid
         \<and> fst (returnBook e p s) = JSON StatusOK (Message Kitap_basariyla_iade_edildi)
         \<and> snd (returnBook e p s) =
             s\<lparr>bookCollection := update_first (\<lambda>b. Book.ID b = bid)
                                   (\<lambda>b. b\<lparr>BorrowerID := Null\<rparr>) (bookCollection s),
               userCollection := update_first (\<lambda>u. User.ID u = uid)
                                   (\<lambda>u. u\<lparr>Books := removeAll bid (Books u)\<rparr>) (userCollection s)\<rparr>)"
  by (auto simp: returnBook_def FindOne_def UpdateOne_def JSON_def split: option.splits if_splits)

text \<open>
  The steps of a borrow, taken without interruption, are the handler; and two borrows
  that take their steps one after the other are two calls of the handler.
\<close>

lemma borrow_steps_borrowBook:
  "borrow_steps 5 e (Received p) s = (Answered (fst (borrowBook e p s)), snd (borrowBook e p s))"
  by (simp add: eval_nat_numeral borrowBook_def FindOne_def UpdateOne_def
      split: option.splits)

lemma borrow_steps_Answered: "borrow_steps n e (Answered r) s = (Answered r, s)"
  by (induction n) simp_all

lemma interleave_First:
  "interleave (replicate n First @ sched) (e1, t1) (e2, t2) s =
     (case borrow_steps n e1 t1 s of (t1', s') \<Rightarrow> interleave sched (e1, t1') (e2, t2) s')"
  by (induction n arbitrary: t1 s) (simp_all split: prod.splits)

lemma interleave_Second:
  "interleave (replicate n Second @ sched) (e1, t1) (e2, t2) s =
     (case borrow_steps n e2 t2 s of (t2', s') \<Rightarrow> interleave sched (e1, t1) (e2, t2') s')"
  by (induction n arbitrary: t2 s) (simp_all split: prod.splits)

lemma interleave_one_at_a_time:
  "interleave (replicate 5 First @ replicate 5 Second) (e1, Received p1) (e2, Received p2) s =
     (Answered (fst (borrowBook e1 p1 s)),
      Answered (fst (borrowBook e2 p2 (snd (borrowBook e1 p1 s)))),
      snd (borrowBook e2 p2 (snd (borrowBook e1 p1 s))))"
  using interleave_Second [of 5 "[]" e1 _ e2 _ _]
  by (simp add: interleave_First borrow_steps_borrowBook)

section \<open>Borrowing\<close>

text \<open>
  C1. When the requesting user is found and already lists two or more books, a borrow
  request answers 400 and changes neither collection, whatever the \<^verbatim>\<open>book_id\<close> is:
  the limit is checked before the book is looked up, so the book need not exist (given a
  well-formed \<^verbatim>\<open>book_id\<close>, the answer is the limit message).
\<close>

theorem borrowBook_limit_reached:
  assumes "ObjectIDFromHex (user_id req) = Some uid"
      and "\<not> find_user_err e"
      and "find (\<lambda>u. User.ID u = uid) (userCollection s) = Some user"
      and "length (Books user) \<ge> 2"
  shows "status (fst (borrowBook e (Some req) s)) = StatusBadRequest
       \<and> snd (borrowBook e (Some req) s) = s
       \<and> (ObjectIDFromHex (book_id req) \<noteq> None \<longrightarrow>
            body (fst (borrowBook e (Some req) s)) = Error Kullanicinin_2_kitap_limiti_doldu)"
  using assms
  by (auto simp: borrowBook_def FindOne_def JSON_def split: option.splits)

text \<open>carol holds two books and asks for a book that the store does not have.\<close>

theorem borrowBook_limit_reached_witness:
  "ObjectIDFromHex hex_carol = Some 3
   \<and> \<not> find_user_err (quiet 0)
   \<and> find (\<lambda>u. User.ID u = 3) (userCollection library) = Some carol
   \<and> length (Books carol) \<ge> 2
   \<and> find (\<lambda>b. Book.ID b = 255) (bookCollection library) = None
   \<and> status (fst (borrowBook (quiet 0) (Some \<lparr>user_id = hex_carol, book_id = hex_unknown\<rparr>) library))
       = StatusBadRequest
   \<and> snd (borrowBook (quiet 0) (Some \<lparr>user_id = hex_carol, book_id = hex_unknown\<rparr>) library)
       = library
   \<and> body (fst (borrowBook (quiet 0) (Some \<lparr>user_id = hex_carol, book_id = hex_unknown\<rparr>) library))
       = Error Kullanicinin_2_kitap_limiti_doldu"
proof -
  have h1: "ObjectIDFromHex (user_id \<lparr>user_id = hex_carol, book_id = hex_unknown\<rparr>) = Some 3"
    by (simp add: examples ObjectIDFromHex_def fromHexChar_def)
  have h2: "\<not> find_user_err (quiet 0)"
    by (simp add: examples)
  have h3: "find (\<lambda>u. User.ID u = 3) (userCollection library) = Some carol"
    by (simp add: examples)
  have h4: "length (Books carol) \<ge> 2"
    by (simp add: examples)
  have h5: "ObjectIDFromHex (book_id \<lparr>user_id = hex_carol, book_id = hex_unknown\<rparr>) \<noteq> None"
    by (simp add: examples ObjectIDFromHex_def fromHexChar_def)
  have h6: "find (\<lambda>b. Book.ID b = 255) (bookCollection library) = None"
    by (simp add: examples)
  from borrowBook_limit_reached [OF h1 h2 h3 h4] h1 h2 h3 h4 h5 h6 show ?thesis
    by simp
qed

text \<open>
  C4. When the requesting user is found and the requested book is found with a borrower,
  a borrow request answers 400 and changes neither collection, whoever the requesting
  user is (the current borrower included); below the lending limit the answer is the
  already-borrowed message.
\<close>

theorem borrowBook_already_borrowed:
  assumes "ObjectIDFromHex (user_id req) = Some uid"
      and "ObjectIDFromHex (book_id req) = Some bid"
      and "\<not> find_user_err e" and "\<not> find_book_err e"
      and "find (\<lambda>u. User.ID u = uid) (userCollection s) = Some user"
      and "find (\<lambda>b. Book.ID b = bid) (bookCollection s) = Some book"
      and "Decode_ptr (BorrowerID book) = Some holder"
  shows "status (fst (borrowBook e (Some req) s)) = StatusBadRequest
       \<and> snd (borrowBook e (Some req) s) = s
       \<and> (length (Books user) < 2 \<longrightarrow>
            body (fst (borrowBook e (Some req) s)) = Error Kitap_zaten_odunc_alinmis)"
  using assms
  by (auto simp: borrowBook_def FindOne_def JSON_def split: option.splits)

text \<open>bob, and then alice who holds it, ask for Dune.\<close>

theorem borrowBook_already_borrowed_witness:
  "find (\<lambda>b. Book.ID b = 10) (bookCollection library) = Some dune
   \<and> Decode_ptr (BorrowerID dune) = Some 1
   \<and> fst (borrowBook (quiet 0) (Some \<lparr>user_id = hex_bob, book_id = hex_dune\<rparr>) library)
       = JSON StatusBadRequest (Error Kitap_zaten_odunc_alinmis)
   \<and> snd (borrowBook (quiet 0) (Some \<lparr>user_id = hex_bob, book_id = hex_dune\<rparr>) library)
       = library
   \<and> fst (borrowBook (quiet 0) (Some \<lparr>user_id = hex_alice, book_id = hex_dune\<rparr>) library)
       = JSON StatusBadRequest (Error Kitap_zaten_odunc_alinmis)
   \<and> snd (borrowBook (quiet 0) (Some \<lparr>user_id = hex_alice, book_id = hex_dune\<rparr>) library)
       = library"
proof -
  have b: "ObjectIDFromHex (user_id \<lparr>user_id = hex_bob, book_id = hex_dune\<rparr>) = Some 2"
    and a: "ObjectIDFromHex (user_id \<lparr>user_id = hex_alice, book_id = hex_dune\<rparr>) = Some 1"
    and d: "ObjectIDFromHex (book_id \<lparr>user_id = hex_bob, book_id = hex_dune\<rparr>) = Some 10"
    and d': "ObjectIDFromHex (book_id \<lparr>user_id = hex_alice, book_id = hex_dune\<rparr>) = Some 10"
    by (simp_all add: examples ObjectIDFromHex_def fromHexChar_def)
  have q: "\<not> find_user_err (quiet 0)" "\<not> find_book_err (quiet 0)"
    by (simp_all add: examples)
  have fb: "find (\<lambda>u. User.ID u = 2) (userCollection library) = Some bob"
    and fa: "find (\<lambda>u. User.ID u = 1) (userCollection library) = Some alice"
    and fd: "find (\<lambda>b. Book.ID b = 10) (bookCollection library) = Some dune"
    and held: "Decode_ptr (BorrowerID dune) = Some 1"
    and few: "length (Books bob) < 2" "length (Books alice) < 2"
    by (simp_all add: examples)
  from borrowBook_already_borrowed [OF b d q fb fd held]
       borrowBook_already_borrowed [OF a d' q fa fd held] fd held few
  show ?thesis
    by (simp add: JSON_def prod_eq_iff)
qed

section \<open>Returning\<close>

text \<open>
  C5. When the book is found and its borrower does not read as the requesting user's
  identifier (another identifier, or none because the book is available), a return
  request answers 400 with the not-yours message and changes neither collection.
\<close>

theorem returnBook_not_holder:
  assumes "ObjectIDFromHex (user_id req) = Some uid"
      and "ObjectIDFromHex (book_id req) = Some bid"
      and "\<not> find_book_err e"
      and "find (\<lambda>b. Book.ID b = bid) (bookCollection s) = Some book"
      and "Decode_ptr (BorrowerID book) \<noteq> Some uid"
  shows "returnBook e (Some req) s =
           (JSON StatusBadRequest (Error Bu_kitap_bu_kullaniciya_ait_degil), s)"
  using assms
  by (auto simp: returnBook_def FindOne_def split: option.splits)

text \<open>bob returns Dune, which alice holds, and Emma, which nobody holds.\<close>

theorem returnBook_not_holder_witness:
  "Decode_ptr (BorrowerID dune) = Some 1 \<and> Decode_ptr (BorrowerID emma) = None
   \<and> returnBook (quiet 0) (Some \<lparr>user_id = hex_bob, book_id = hex_dune\<rparr>) library
       = (JSON StatusBadRequest (Error Bu_kitap_bu_kullaniciya_ait_degil), library)
   \<and> returnBook (quiet 0) (Some \<lparr>user_id = hex_bob, book_id = hex_emma\<rparr>) library
       = (JSON StatusBadRequest (Error Bu_kitap_bu_kullaniciya_ait_degil), library)"
proof -
  have b: "ObjectIDFromHex (user_id \<lparr>user_id = hex_bob, book_id = hex_dune\<rparr>) = Some 2"
    and b': "ObjectIDFromHex (user_id \<lparr>user_id = hex_bob, book_id = hex_emma\<rparr>) = Some 2"
    and d: "ObjectIDFromHex (book_id \<lparr>user_id = hex_bob, book_id = hex_dune\<rparr>) = Some 10"
    and m: "ObjectIDFromHex (book_id \<lparr>user_id = hex_bob, book_id = hex_emma\<rparr>) = Some 11"
    by (simp_all add: examples ObjectIDFromHex_def fromHexChar_def)
  have q: "\<not> find_book_err (quiet 0)"
    by (simp add: examples)
  have fd: "find (\<lambda>b. Book.ID b = 10) (bookCollection library) = Some dune"
    and fm: "find (\<lambda>b. Book.ID b = 11) (bookCollection library) = Some emma"
    and nd: "Decode_ptr (BorrowerID dune) \<noteq> Some 2"
    and nm: "Decode_ptr (BorrowerID emma) \<noteq> Some 2"
    and hd: "Decode_ptr (BorrowerID dune) = Some 1"
    and hm: "Decode_ptr (BorrowerID emma) = None"
    by (simp_all add: examples)
  from returnBook_not_holder [OF b d q fd nd] returnBook_not_holder [OF b' m q fm nm] hd hm
  show ?thesis by simp
qed

text \<open>
  C10. A return never loads the user. When the book is found with borrower \<open>uid\<close> and no
  store call fails, the answer is 200 and the book's borrower is cleared; when no user
  document has the identifier \<open>uid\<close>, the update of the users collection matches
  nothing and leaves it as it was.
\<close>

theorem returnBook_missing_user:
  assumes uid: "ObjectIDFromHex (user_id req) = Some uid"
      and bid: "ObjectIDFromHex (book_id req) = Some bid"
      and ok: "\<not> find_book_err e" "\<not> update_book_err e" "\<not> update_user_err e"
      and fb: "find (\<lambda>b. Book.ID b = bid) (bookCollection s) = Some book"
      and held: "Decode_ptr (BorrowerID book) = Some uid"
  shows "fst (returnBook e (Some req) s) = JSON StatusOK (Message Kitap_basariyla_iade_edildi)
       \<and> find (\<lambda>b. Book.ID b = bid) (bookCollection (snd (returnBook e (Some req) s)))
           = Some (book\<lparr>BorrowerID := Null\<rparr>)
       \<and> (find (\<lambda>u. User.ID u = uid) (userCollection s) = None \<longrightarrow>
            userCollection (snd (returnBook e (Some req) s)) = userCollection s)"
proof -
  have r: "returnBook e (Some req) s =
      (JSON StatusOK (Message Kitap_basariyla_iade_edildi),
       s\<lparr>bookCollection := update_first (\<lambda>b. Book.ID b = bid)
                              (\<lambda>b. b\<lparr>BorrowerID := Null\<rparr>) (bookCollection s),
         userCollection := update_first (\<lambda>u. User.ID u = uid)
                              (\<lambda>u. u\<lparr>Books := removeAll bid (Books u)\<rparr>) (userCollection s)\<rparr>)"
    using uid bid ok fb held
    by (simp add: returnBook_def FindOne_def UpdateOne_def)
  from fb have "Book.ID book = bid"
    using find_Some_set [of "\<lambda>b. Book.ID b = bid" "bookCollection s" book] by simp
  then have "find (\<lambda>b. Book.ID b = bid)
               (update_first (\<lambda>b. Book.ID b = bid) (\<lambda>b. b\<lparr>BorrowerID := Null\<rparr>) (bookCollection s))
             = Some (book\<lparr>BorrowerID := Null\<rparr>)"
    using find_update_first [OF fb, of "\<lambda>b. b\<lparr>BorrowerID := Null\<rparr>"] by simp
  with r show ?thesis
    by (simp add: update_first_none)
qed

text \<open>alice's identifier returns Dune after her user document was deleted.\<close>

theorem returnBook_missing_user_witness:
  "find (\<lambda>u. User.ID u = 1) (userCollection orphaned) = None
   \<and> find (\<lambda>b. Book.ID b = 10) (bookCollection orphaned) = Some dune
   \<and> Decode_ptr (BorrowerID dune) = Some 1
   \<and> fst (returnBook (quiet 0) (Some \<lparr>user_id = hex_alice, book_id = hex_dune\<rparr>) orphaned)
       = JSON StatusOK (Message Kitap_basariyla_iade_edildi)
   \<and> find (\<lambda>b. Book.ID b = 10)
        (bookCollection (snd (returnBook (quiet 0) (Some \<lparr>user_id = hex_alice, book_id = hex_dune\<rparr>) orphaned)))
       = Some (dune\<lparr>BorrowerID := Null\<rparr>)
   \<and> userCollection (snd (returnBook (quiet 0) (Some \<lparr>user_id = hex_alice, book_id = hex_dune\<rparr>) orphaned))
       = userCollection orphaned"
proof -
  have a: "ObjectIDFromHex (user_id \<lparr>user_id = hex_alice, book_id = hex_dune\<rparr>) = Some 1"
    and d: "ObjectIDFromHex (book_id \<lparr>user_id = hex_alice, book_id = hex_dune\<rparr>) = Some 10"
    by (simp_all add: examples ObjectIDFromHex_def fromHexChar_def)
  have q: "\<not> find_book_err (quiet 0)" "\<not> update_book_err (quiet 0)" "\<not> update_user_err (quiet 0)"
    by (simp_all add: examples)
  have fd: "find (\<lambda>b. Book.ID b = 10) (bookCollection orphaned) = Some dune"
    and held: "Decode_ptr (BorrowerID dune) = Some 1"
    and gone: "find (\<lambda>u. User.ID u = 1) (userCollection orphaned) = None"
    by (simp_all add: examples)
  from returnBook_missing_user [OF a d q fd held] fd held gone
  show ?thesis by simp
qed

section \<open>Borrowing and returning in sequence\<close>

text \<open>
  C3, as the claim states it, fails: in the store \<open>stale\<close>, where bob's list already
  names Emma while Emma has no borrower, the borrow succeeds, the return succeeds, and
  bob's list ends empty instead of naming Emma once (\<^verbatim>\<open>$pull\<close> removes every
  occurrence); Emma's borrower ends as a stored null where the field was left out.
\<close>

theorem borrow_then_return_counterexample:
  "status (fst (borrowBook (quiet 0) (Some \<lparr>user_id = hex_bob, book_id = hex_emma\<rparr>) stale))
     = StatusOK
   \<and> status (fst (returnBook (quiet 0) (Some \<lparr>user_id = hex_bob, book_id = hex_emma\<rparr>)
          (snd (borrowBook (quiet 0) (Some \<lparr>user_id = hex_bob, book_id = hex_emma\<rparr>) stale))))
     = StatusOK
   \<and> snd (returnBook (quiet 0) (Some \<lparr>user_id = hex_bob, book_id = hex_emma\<rparr>)
          (snd (borrowBook (quiet 0) (Some \<lparr>user_id = hex_bob, book_id = hex_emma\<rparr>) stale)))
     = \<lparr>userCollection = [bob], bookCollection = [emma\<lparr>BorrowerID := Null\<rparr>]\<rparr>
   \<and> snd (returnBook (quiet 0) (Some \<lparr>user_id = hex_bob, book_id = hex_emma\<rparr>)
          (snd (borrowBook (quiet 0) (Some \<lparr>user_id = hex_bob, book_id = hex_emma\<rparr>) stale)))
     \<noteq> stale
   \<and> map Books (userCollection stale) = [[11]]
   \<and> map Books (userCollection (snd (returnBook (quiet 0) (Some \<lparr>user_id = hex_bob, book_id = hex_emma\<rparr>)
          (snd (borrowBook (quiet 0) (Some \<lparr>user_id = hex_bob, book_id = hex_emma\<rparr>) stale)))))
      = [[]]"
  by (simp add: examples handlers)

text \<open>
  C3, amended. When the borrow succeeds and the user's list did not already hold the
  book, a return by the same user for the same book whose store calls do not fail
  answers 200; it leaves the users collection exactly as it was before the borrow, and
  the books collection as it was except that the book's borrower is now a stored null:
  the books decode to the same structs as before, and the whole state is the one before
  the borrow when that borrower was a stored null already.
\<close>

theorem borrow_then_return:
  assumes ok: "status (fst (borrowBook e (Some req) s)) = StatusOK"
      and uid: "ObjectIDFromHex (user_id req) = Some uid"
      and bid: "ObjectIDFromHex (book_id req) = Some bid"
      and fu: "find (\<lambda>u. User.ID u = uid) (userCollection s) = Some user"
      and new: "bid \<notin> set (Books user)"
      and e': "\<not> find_book_err e'" "\<not> update_book_err e'" "\<not> update_user_err e'"
  shows "fst (returnBook e' (Some req) (snd (borrowBook e (Some req) s)))
           = JSON StatusOK (Message Kitap_basariyla_iade_edildi)
       \<and> userCollection (snd (returnBook e' (Some req) (snd (borrowBook e (Some req) s))))
           = userCollection s
       \<and> bookCollection (snd (returnBook e' (Some req) (snd (borrowBook e (Some req) s))))
           = update_first (\<lambda>b. Book.ID b = bid) (\<lambda>b. b\<lparr>BorrowerID := Null\<rparr>) (bookCollection s)
       \<and> same_reading
            (bookCollection (snd (returnBook e' (Some req) (snd (borrowBook e (Some req) s)))))
            (bookCollection s)
       \<and> ((\<exists>book. find (\<lambda>b. Book.ID b = bid) (bookCollection s) = Some book
                   \<and> BorrowerID book = Null) \<longrightarrow>
            snd (returnBook e' (Some req) (snd (borrowBook e (Some req) s))) = s)"
proof -
  let ?pb = "\<lambda>b. Book.ID b = bid" and ?pu = "\<lambda>u. User.ID u = uid"
  let ?lend = "\<lambda>b. b\<lparr>BorrowerID := Oid uid\<rparr>" and ?clear = "\<lambda>b. b\<lparr>BorrowerID := Null\<rparr>"
  let ?push = "\<lambda>u. u\<lparr>Books := Books u @ [bid]\<rparr>"
  let ?pull = "\<lambda>u. u\<lparr>Books := removeAll bid (Books u)\<rparr>"
  from ok uid bid fu obtain book where
        fb: "find ?pb (bookCollection s) = Some book"
    and free: "Decode_ptr (BorrowerID book) = None"
    and s1: "snd (borrowBook e (Some req) s) =
               s\<lparr>bookCollection := update_first ?pb ?lend (bookCollection s),
                 userCollection := update_first ?pu ?push (userCollection s)\<rparr>"
    by (auto elim!: borrowBook_OK)
  from fb have idb: "Book.ID book = bid"
    using find_Some_set [of ?pb "bookCollection s" book] by simp
  have lent: "find ?pb (update_first ?pb ?lend (bookCollection s)) = Some (?lend book)"
    using find_update_first [OF fb, of ?lend] idb by simp
  have r: "returnBook e' (Some req) (snd (borrowBook e (Some req) s)) =
      (JSON StatusOK (Message Kitap_basariyla_iade_edildi),
       s\<lparr>bookCollection := update_first ?pb ?clear (update_first ?pb ?lend (bookCollection s)),
         userCollection := update_first ?pu ?pull (update_first ?pu ?push (userCollection s))\<rparr>)"
    using uid bid e' lent
    by (simp add: s1 returnBook_def FindOne_def UpdateOne_def)
  have books: "update_first ?pb ?clear (update_first ?pb ?lend (bookCollection s))
                 = update_first ?pb ?clear (bookCollection s)"
    by (simp add: update_first_twice)
  have "update_first ?pu ?pull (update_first ?pu ?push (userCollection s))
          = update_first ?pu (\<lambda>u. ?pull (?push u)) (userCollection s)"
    by (simp add: update_first_twice)
  also have "\<dots> = userCollection s"
    using new by (intro update_first_fixed [OF fu]) simp
  finally have users: "update_first ?pu ?pull (update_first ?pu ?push (userCollection s))
                         = userCollection s" .
  have reading: "same_reading (update_first ?pb ?clear (bookCollection s)) (bookCollection s)"
  proof (rule same_reading_update_first)
    fix x assume "find ?pb (bookCollection s) = Some x"
    with fb free show "Book.ID (?clear x) = Book.ID x \<and> Title (?clear x) = Title x
        \<and> Decode_ptr (BorrowerID (?clear x)) = Decode_ptr (BorrowerID x)"
      by simp
  qed
  have exact: "update_first ?pb ?clear (bookCollection s) = bookCollection s"
    if "find ?pb (bookCollection s) = Some b'" "BorrowerID b' = Null" for b'
    using that by (intro update_first_fixed [of ?pb _ b']) simp_all
  from r books users reading exact show ?thesis
    by auto
qed

text \<open>bob borrows Emma from the library and returns it.\<close>

theorem borrow_then_return_witness:
  "status (fst (borrowBook (quiet 0) (Some \<lparr>user_id = hex_bob, book_id = hex_emma\<rparr>) library))
     = StatusOK
   \<and> find (\<lambda>u. User.ID u = 2) (userCollection library) = Some bob
   \<and> 11 \<notin> set (Books bob)
   \<and> fst (returnBook (quiet 0) (Some \<lparr>user_id = hex_bob, book_id = hex_emma\<rparr>)
           (snd (borrowBook (quiet 0) (Some \<lparr>user_id = hex_bob, book_id = hex_emma\<rparr>) library)))
       = JSON StatusOK (Message Kitap_basariyla_iade_edildi)
   \<and> userCollection (snd (returnBook (quiet 0) (Some \<lparr>user_id = hex_bob, book_id = hex_emma\<rparr>)
           (snd (borrowBook (quiet 0) (Some \<lparr>user_id = hex_bob, book_id = hex_emma\<rparr>) library))))
       = userCollection library
   \<and> bookCollection (snd (returnBook (quiet 0) (Some \<lparr>user_id = hex_bob, book_id = hex_emma\<rparr>)
           (snd (borrowBook (quiet 0) (Some \<lparr>user_id = hex_bob, book_id = hex_emma\<rparr>) library))))
       = update_first (\<lambda>b. Book.ID b = 11) (\<lambda>b. b\<lparr>BorrowerID := Null\<rparr>) (bookCollection library)
   \<and> update_first (\<lambda>b. Book.ID b = 11) (\<lambda>b. b\<lparr>BorrowerID := Null\<rparr>) (bookCollection library)
       = [dune, emma\<lparr>BorrowerID := Null\<rparr>, faust, germinal]
   \<and> same_reading
        (bookCollection (snd (returnBook (quiet 0) (Some \<lparr>user_id = hex_bob, book_id = hex_emma\<rparr>)
           (snd (borrowBook (quiet 0) (Some \<lparr>user_id = hex_bob, book_id = hex_emma\<rparr>) library)))))
        (bookCollection library)"
proof -
  have ok: "status (fst (borrowBook (quiet 0) (Some \<lparr>user_id = hex_bob, book_id = hex_emma\<rparr>) library))
              = StatusOK"
    by (simp add: examples handlers)
  have b: "ObjectIDFromHex (user_id \<lparr>user_id = hex_bob, book_id = hex_emma\<rparr>) = Some 2"
    and m: "ObjectIDFromHex (book_id \<lparr>user_id = hex_bob, book_id = hex_emma\<rparr>) = Some 11"
    by (simp_all add: examples ObjectIDFromHex_def fromHexChar_def)
  have fb: "find (\<lambda>u. User.ID u = 2) (userCollection library) = Some bob"
    and new: "11 \<notin> set (Books bob)"
    and q: "\<not> find_book_err (quiet 0)" "\<not> update_book_err (quiet 0)"
           "\<not> update_user_err (quiet 0)"
    by (simp_all add: examples)
  have upd: "update_first (\<lambda>b. Book.ID b = 11) (\<lambda>b. b\<lparr>BorrowerID := Null\<rparr>) (bookCollection library)
               = [dune, emma\<lparr>BorrowerID := Null\<rparr>, faust, germinal]"
    by (simp add: examples)
  from borrow_then_return [OF ok b m fb new q] ok fb new upd
  show ?thesis by blast
qed

text \<open>
  The library satisfies the relationship and has unique identifiers, and still the round
  trip does not give back the very same documents: Emma's borrower was left out and is
  null afterwards.
\<close>

lemma round_trip_stores_null:
  "consistent library
   \<and> snd (returnBook (quiet 0) (Some \<lparr>user_id = hex_bob, book_id = hex_emma\<rparr>)
          (snd (borrowBook (quiet 0) (Some \<lparr>user_id = hex_bob, book_id = hex_emma\<rparr>) library)))
     = library\<lparr>bookCollection := [dune, emma\<lparr>BorrowerID := Null\<rparr>, faust, germinal]\<rparr>
   \<and> snd (returnBook (quiet 0) (Some \<lparr>user_id = hex_bob, book_id = hex_emma\<rparr>)
          (snd (borrowBook (quiet 0) (Some \<lparr>user_id = hex_bob, book_id = hex_emma\<rparr>) library)))
     \<noteq> library"
  by (simp add: examples handlers consistent_def relationship_def unique_ids_def)

section \<open>Users\<close>

text \<open>
  C7. With a working count query, registering a username that a stored user already has
  answers 400 with the username-exists message and changes nothing. A username that no
  stored user has, with a hash from bcrypt and an insert that goes through, answers 201
  with the new identifier and appends a user with that name, that hash and an empty book
  list; a second registration of the same name right after it answers 400 and changes
  nothing: one success and one conflict.
\<close>

theorem registerUser_conflict_or_created:
  assumes "\<not> count_err e"
  shows "((\<exists>u \<in> set (userCollection s). Username u = username req) \<longrightarrow>
            registerUser e (Some req) s =
              (JSON StatusBadRequest (Error Kullanici_adi_zaten_mevcut), s))
       \<and> ((\<forall>u \<in> set (userCollection s). Username u \<noteq> username req)
            \<and> hash_result e = Some hashed \<and> \<not> insert_err e
            \<and> new_id e \<notin> User.ID ` set (userCollection s) \<longrightarrow>
            registerUser e (Some req) s =
              (JSON StatusCreated (Inserted_id (new_id e)),
               s\<lparr>userCollection := userCollection s @
                   [\<lparr>User.ID = new_id e, Username = username req, Password = hashed,
                     Books = []\<rparr>]\<rparr>)
            \<and> (\<not> count_err e' \<and> username req' = username req \<longrightarrow>
                 registerUser e' (Some req') (snd (registerUser e (Some req) s)) =
                   (JSON StatusBadRequest (Error Kullanici_adi_zaten_mevcut),
                    snd (registerUser e (Some req) s))))"
proof -
  have conflict: "registerUser e0 (Some r) t =
                    (JSON StatusBadRequest (Error Kullanici_adi_zaten_mevcut), t)"
    if "\<not> count_err e0" "\<exists>u \<in> set (userCollection t). Username u = username r"
    for e0 r t
    using that
    by (auto simp: registerUser_def CountDocuments_def filter_empty_conv)
  have created: "registerUser e (Some req) s =
              (JSON StatusCreated (Inserted_id (new_id e)),
               s\<lparr>userCollection := userCollection s @
                   [\<lparr>User.ID = new_id e, Username = username req, Password = hashed,
                     Books = []\<rparr>]\<rparr>)"
    if "\<forall>u \<in> set (userCollection s). Username u \<noteq> username req"
       "hash_result e = Some hashed" "\<not> insert_err e"
       "new_id e \<notin> User.ID ` set (userCollection s)"
  proof -
    from that(1) have "filter (\<lambda>u. Username u = username req) (userCollection s) = []"
      by (simp add: filter_empty_conv)
    with assms that show ?thesis
      by (simp add: registerUser_def CountDocuments_def hashPassword_def InsertOne_user_def
            Let_def)
  qed
  show ?thesis
  proof (intro conjI impI)
    assume "\<exists>u \<in> set (userCollection s). Username u = username req"
    with assms show "registerUser e (Some req) s =
              (JSON StatusBadRequest (Error Kullanici_adi_zaten_mevcut), s)"
      by (rule conflict)
  next
    assume a: "(\<forall>u \<in> set (userCollection s). Username u \<noteq> username req)
            \<and> hash_result e = Some hashed \<and> \<not> insert_err e
            \<and> new_id e \<notin> User.ID ` set (userCollection s)"
    then show "registerUser e (Some req) s =
              (JSON StatusCreated (Inserted_id (new_id e)),
               s\<lparr>userCollection := userCollection s @
                   [\<lparr>User.ID = new_id e, Username = username req, Password = hashed,
                     Books = []\<rparr>]\<rparr>)"
      by (intro created) simp_all
  next
    assume a: "(\<forall>u \<in> set (userCollection s). Username u \<noteq> username req)
            \<and> hash_result e = Some hashed \<and> \<not> insert_err e
            \<and> new_id e \<notin> User.ID ` set (userCollection s)"
      and b: "\<not> count_err e' \<and> username req' = username req"
    from a have "registerUser e (Some req) s =
              (JSON StatusCreated (Inserted_id (new_id e)),
               s\<lparr>userCollection := userCollection s @
                   [\<lparr>User.ID = new_id e, Username = username req, Password = hashed,
                     Books = []\<rparr>]\<rparr>)"
      by (intro created) simp_all
    with b have "\<exists>u \<in> set (userCollection (snd (registerUser e (Some req) s))).
                   Username u = username req'"
      by simp
    with b show "registerUser e' (Some req') (snd (registerUser e (Some req) s)) =
                   (JSON StatusBadRequest (Error Kullanici_adi_zaten_mevcut),
                    snd (registerUser e (Some req) s))"
      by (intro conflict) simp_all
  qed
qed

text \<open>
  alice registers twice on an empty store; carol's name is taken in the library.
\<close>

theorem registerUser_conflict_or_created_witness:
  "registerUser (quiet 1) (Some \<lparr>username = ''alice'', password = ''pw1''\<rparr>) empty_db =
     (JSON StatusCreated (Inserted_id 1),
      empty_db\<lparr>userCollection :=
         [\<lparr>User.ID = 1, Username = ''alice'', Password = ''$2a$10$N9qo8uLOickgx2ZMRZoMye'',
           Books = []\<rparr>]\<rparr>)
   \<and> registerUser (quiet 4) (Some \<lparr>username = ''alice'', password = ''pw2''\<rparr>)
        (snd (registerUser (quiet 1) (Some \<lparr>username = ''alice'', password = ''pw1''\<rparr>) empty_db)) =
       (JSON StatusBadRequest (Error Kullanici_adi_zaten_mevcut),
        snd (registerUser (quiet 1) (Some \<lparr>username = ''alice'', password = ''pw1''\<rparr>) empty_db))
   \<and> registerUser (quiet 4) (Some \<lparr>username = ''carol'', password = ''pw3''\<rparr>) library =
       (JSON StatusBadRequest (Error Kullanici_adi_zaten_mevcut), library)"
proof -
  let ?first = "\<lparr>username = ''alice'', password = ''pw1''\<rparr>"
  let ?again = "\<lparr>username = ''alice'', password = ''pw2''\<rparr>"
  let ?carol = "\<lparr>username = ''carol'', password = ''pw3''\<rparr>"
  let ?hash = "''$2a$10$N9qo8uLOickgx2ZMRZoMye''"
  have q: "\<not> count_err (quiet 1)" "\<not> count_err (quiet 4)"
    by (simp_all add: examples)
  have fresh: "(\<forall>u \<in> set (userCollection empty_db). Username u \<noteq> username ?first)
       \<and> hash_result (quiet 1) = Some ?hash \<and> \<not> insert_err (quiet 1)
       \<and> new_id (quiet 1) \<notin> User.ID ` set (userCollection empty_db)"
    by (simp add: examples)
  have same: "\<not> count_err (quiet 4) \<and> username ?again = username ?first"
    by (simp add: examples)
  have taken: "\<exists>u \<in> set (userCollection library). Username u = username ?carol"
    by (simp add: examples)
  note alice = registerUser_conflict_or_created
                 [OF q(1), where s = empty_db and req = ?first and hashed = ?hash
                  and e' = "quiet 4" and req' = ?again]
  note carol = registerUser_conflict_or_created [OF q(2), where s = library and req = ?carol]
  from alice fresh have created:
    "registerUser (quiet 1) (Some ?first) empty_db =
       (JSON StatusCreated (Inserted_id (new_id (quiet 1))),
        empty_db\<lparr>userCollection := userCollection empty_db @
           [\<lparr>User.ID = new_id (quiet 1), Username = username ?first, Password = ?hash,
             Books = []\<rparr>]\<rparr>)"
    by blast
  from alice fresh same have refused:
    "registerUser (quiet 4) (Some ?again) (snd (registerUser (quiet 1) (Some ?first) empty_db)) =
       (JSON StatusBadRequest (Error Kullanici_adi_zaten_mevcut),
        snd (registerUser (quiet 1) (Some ?first) empty_db))"
    by blast
  from carol taken have known:
    "registerUser (quiet 4) (Some ?carol) library =
       (JSON StatusBadRequest (Error Kullanici_adi_zaten_mevcut), library)"
    by blast
  have "registerUser (quiet 1) (Some ?first) empty_db =
     (JSON StatusCreated (Inserted_id 1),
      empty_db\<lparr>userCollection :=
         [\<lparr>User.ID = 1, Username = ''alice'', Password = ?hash, Books = []\<rparr>]\<rparr>)"
    unfolding created by (simp add: examples)
  with refused known show ?thesis by blast
qed

text \<open>
  C9. \<^verbatim>\<open>getUser\<close> answers 400 when the identifier is not 24 hexadecimal digits, 404
  when no stored user has it, and otherwise 200 with the stored user whose password is
  replaced by the empty string; no answer of \<^verbatim>\<open>getUser\<close> carries a user with a
  password.
\<close>

theorem getUser_contract:
  "(length ident \<noteq> 24 \<or> (\<exists>c \<in> set ident. fromHexChar c = None) \<longrightarrow>
      getUser e ident s = (JSON StatusBadRequest (Error Gecersiz_kullanici_ID), s))
   \<and> (ObjectIDFromHex ident = Some objID
        \<and> find (\<lambda>u. User.ID u = objID) (userCollection s) = None \<longrightarrow>
      getUser e ident s = (JSON StatusNotFound (Error Kullanici_bulunamadi), s))
   \<and> (ObjectIDFromHex ident = Some objID \<and> \<not> find_user_err e
        \<and> find (\<lambda>u. User.ID u = objID) (userCollection s) = Some user \<longrightarrow>
      getUser e ident s = (JSON StatusOK (User_json (user\<lparr>Password := ''''\<rparr>)), s))
   \<and> (body (fst (getUser e ident s)) = User_json shown \<longrightarrow> Password shown = '''')"
proof (intro conjI impI)
  assume "length ident \<noteq> 24 \<or> (\<exists>c \<in> set ident. fromHexChar c = None)"
  then have "ObjectIDFromHex ident = None"
    by (simp add: ObjectIDFromHex_None)
  then show "getUser e ident s = (JSON StatusBadRequest (Error Gecersiz_kullanici_ID), s)"
    by (simp add: getUser_def)
next
  assume "ObjectIDFromHex ident = Some objID
        \<and> find (\<lambda>u. User.ID u = objID) (userCollection s) = None"
  then show "getUser e ident s = (JSON StatusNotFound (Error Kullanici_bulunamadi), s)"
    by (simp add: getUser_def FindOne_def)
next
  assume "ObjectIDFromHex ident = Some objID \<and> \<not> find_user_err e
        \<and> find (\<lambda>u. User.ID u = objID) (userCollection s) = Some user"
  then show "getUser e ident s = (JSON StatusOK (User_json (user\<lparr>Password := ''''\<rparr>)), s)"
    by (simp add: getUser_def FindOne_def)
next
  assume "body (fst (getUser e ident s)) = User_json shown"
  then show "Password shown = ''''"
    by (auto simp: getUser_def JSON_def split: option.splits)
qed

text \<open>A name instead of an identifier, an unknown identifier, and alice's.\<close>

theorem getUser_contract_witness:
  "getUser (quiet 0) ''alice'' library = (JSON StatusBadRequest (Error Gecersiz_kullanici_ID), library)
   \<and> getUser (quiet 0) hex_unknown library = (JSON StatusNotFound (Error Kullanici_bulunamadi), library)
   \<and> getUser (quiet 0) hex_alice library =
       (JSON StatusOK (User_json (alice\<lparr>Password := ''''\<rparr>)), library)
   \<and> Password alice = ''$2a$10$a''"
proof -
  have bad: "length ''alice'' \<noteq> 24 \<or> (\<exists>c \<in> set ''alice''. fromHexChar c = None)"
    by simp
  have unknown: "ObjectIDFromHex hex_unknown = Some 255
        \<and> find (\<lambda>u. User.ID u = 255) (userCollection library) = None"
    by (simp add: examples ObjectIDFromHex_def fromHexChar_def)
  have known: "ObjectIDFromHex hex_alice = Some 1 \<and> \<not> find_user_err (quiet 0)
        \<and> find (\<lambda>u. User.ID u = 1) (userCollection library) = Some alice"
    by (simp add: examples ObjectIDFromHex_def fromHexChar_def)
  have pw: "Password alice = ''$2a$10$a''"
    by (simp add: examples)
  from getUser_contract [where ident = "''alice''" and e = "quiet 0" and s = library]
       getUser_contract [where ident = hex_unknown and objID = 255 and s = library
                         and e = "quiet 0"]
       getUser_contract [where ident = hex_alice and objID = 1 and e = "quiet 0"
                         and s = library and user = alice]
       bad unknown known pw
  show ?thesis by blast
qed

text \<open>
  C8. \<^verbatim>\<open>deleteUser\<close> never writes to the books collection, whatever its outcome:
  every book keeps its borrower and its other fields, also the books the deleted user
  holds.
\<close>

theorem deleteUser_keeps_books:
  "bookCollection (snd (deleteUser e ident s)) = bookCollection s"
  by (auto simp: deleteUser_def DeleteOne_def split: option.splits)

text \<open>Deleting alice leaves Dune with her identifier as its borrower.\<close>

theorem deleteUser_keeps_books_witness:
  "deleteUser (quiet 0) hex_alice library = (JSON StatusOK (Message Kullanici_silindi), orphaned)
   \<and> bookCollection (snd (deleteUser (quiet 0) hex_alice library)) = bookCollection library
   \<and> find (\<lambda>u. User.ID u = 1) (userCollection orphaned) = None
   \<and> find (\<lambda>b. Book.ID b = 10) (bookCollection orphaned) = Some dune
   \<and> BorrowerID dune = Oid 1"
proof -
  have "deleteUser (quiet 0) hex_alice library = (JSON StatusOK (Message Kullanici_silindi), orphaned)"
    by (simp add: examples handlers)
  moreover have "find (\<lambda>u. User.ID u = 1) (userCollection orphaned) = None"
    "find (\<lambda>b. Book.ID b = 10) (bookCollection orphaned) = Some dune"
    "BorrowerID dune = Oid 1"
    by (simp_all add: examples)
  ultimately show ?thesis
    using deleteUser_keeps_books [of "quiet 0" hex_alice library] by blast
qed

section \<open>The relationship between the collections\<close>

text \<open>
  The two writes of a successful borrow, and of a successful return, keep the
  relationship when identifiers are unique.
\<close>

lemma relationship_borrow:
  assumes rel: "\<forall>b \<in> set bs. \<forall>u \<in> set us.
                  (Decode_ptr (BorrowerID b) = Some (User.ID u)) = (Book.ID b \<in> set (Books u))"
      and db: "distinct (map Book.ID bs)"
      and fb: "find (\<lambda>b. Book.ID b = bid) bs = Some book"
      and av: "Decode_ptr (BorrowerID book) = None"
  shows "\<forall>b \<in> set (map (\<lambda>b. if Book.ID b = bid then b\<lparr>BorrowerID := Oid uid\<rparr> else b) bs).
         \<forall>u \<in> set (map (\<lambda>u. if User.ID u = uid then u\<lparr>Books := Books u @ [bid]\<rparr> else u) us).
           (Decode_ptr (BorrowerID b) = Some (User.ID u)) = (Book.ID b \<in> set (Books u))"
proof -
  from fb have book: "book \<in> set bs" "Book.ID book = bid"
    using find_Some_set [of "\<lambda>b. Book.ID b = bid" bs book] by auto
  have only: "b = book" if "b \<in> set bs" "Book.ID b = bid" for b
  proof -
    from db have "inj_on Book.ID (set bs)" by (simp add: distinct_map)
    with book that show ?thesis by (auto dest: inj_onD)
  qed
  have free: "bid \<notin> set (Books u)" if "u \<in> set us" for u
    using rel book av that by force
  show ?thesis
    using rel only free by auto
qed

lemma relationship_return:
  assumes rel: "\<forall>b \<in> set bs. \<forall>u \<in> set us.
                  (Decode_ptr (BorrowerID b) = Some (User.ID u)) = (Book.ID b \<in> set (Books u))"
      and fb: "find (\<lambda>b. Book.ID b = bid) bs = Some book"
      and held: "Decode_ptr (BorrowerID book) = Some uid"
  shows "\<forall>b \<in> set (map (\<lambda>b. if Book.ID b = bid then b\<lparr>BorrowerID := Null\<rparr> else b) bs).
         \<forall>u \<in> set (map (\<lambda>u. if User.ID u = uid then u\<lparr>Books := removeAll bid (Books u)\<rparr> else u) us).
           (Decode_ptr (BorrowerID b) = Some (User.ID u)) = (Book.ID b \<in> set (Books u))"
proof -
  from fb have book: "book \<in> set bs" "Book.ID book = bid"
    using find_Some_set [of "\<lambda>b. Book.ID b = bid" bs book] by auto
  have others: "bid \<notin> set (Books u)" if "u \<in> set us" "User.ID u \<noteq> uid" for u
    using rel book held that by force
  show ?thesis
    using rel others by auto
qed

lemma borrowBook_consistent:
  assumes "consistent s" and "status (fst (borrowBook e p s)) \<noteq> StatusInternalServerError"
  shows "consistent (snd (borrowBook e p s))"
proof -
  from assms(1) have rel: "relationship s" and uq: "unique_ids s"
    by (simp_all add: consistent_def)
  from borrowBook_outcome [of e p s] assms(2)
  consider "snd (borrowBook e p s) = s"
    | uid bid book where
        "find (\<lambda>b. Book.ID b = bid) (bookCollection s) = Some book"
        "Decode_ptr (BorrowerID book) = None"
        "snd (borrowBook e p s) =
             s\<lparr>bookCollection := update_first (\<lambda>b. Book.ID b = bid)
                                   (\<lambda>b. b\<lparr>BorrowerID := Oid uid\<rparr>) (bookCollection s),
               userCollection := update_first (\<lambda>u. User.ID u = uid)
                                   (\<lambda>u. u\<lparr>Books := Books u @ [bid]\<rparr>) (userCollection s)\<rparr>"
    by blast
  then show ?thesis
  proof cases
    case 1
    with assms(1) show ?thesis by simp
  next
    case 2
    from uq have du: "distinct (map User.ID (userCollection s))"
      and dbk: "distinct (map Book.ID (bookCollection s))"
      by (simp_all add: unique_ids_def)
    have "relationship (snd (borrowBook e p s))"
      unfolding relationship_def 2(3)
      using relationship_borrow [OF rel [unfolded relationship_def] dbk 2(1) 2(2), of uid]
      by (simp add: update_first_distinct [OF du] update_first_distinct [OF dbk])
    moreover have "unique_ids (snd (borrowBook e p s))"
      unfolding unique_ids_def 2(3) using du dbk
      by (simp add: update_first_ids)
    ultimately show ?thesis by (simp add: consistent_def)
  qed
qed

lemma returnBook_consistent:
  assumes "consistent s" and "status (fst (returnBook e p s)) \<noteq> StatusInternalServerError"
  shows "consistent (snd (returnBook e p s))"
proof -
  from assms(1) have rel: "relationship s" and uq: "unique_ids s"
    by (simp_all add: consistent_def)
  from returnBook_outcome [of e p s] assms(2)
  consider "snd (returnBook e p s) = s"
    | uid bid book where
        "find (\<lambda>b. Book.ID b = bid) (bookCollection s) = Some book"
        "Decode_ptr (BorrowerID book) = Some uid"
        "snd (returnBook e p s) =
             s\<lparr>bookCollection := update_first (\<lambda>b. Book.ID b = bid)
                                   (\<lambda>b. b\<lparr>BorrowerID := Null\<rparr>) (bookCollection s),
               userCollection := update_first (\<lambda>u. User.ID u = uid)
                                   (\<lambda>u. u\<lparr>Books := removeAll bid (Books u)\<rparr>) (userCollection s)\<rparr>"
    by blast
  then show ?thesis
  proof cases
    case 1
    with assms(1) show ?thesis by simp
  next
    case 2
    from uq have du: "distinct (map User.ID (userCollection s))"
      and dbk: "distinct (map Book.ID (bookCollection s))"
      by (simp_all add: unique_ids_def)
    have "relationship (snd (returnBook e p s))"
      unfolding relationship_def 2(3)
      using relationship_return [OF rel [unfolded relationship_def] 2(1) 2(2)]
      by (simp add: update_first_distinct [OF du] update_first_distinct [OF dbk])
    moreover have "unique_ids (snd (returnBook e p s))"
      unfolding unique_ids_def 2(3) using du dbk
      by (simp add: update_first_ids)
    ultimately show ?thesis by (simp add: consistent_def)
  qed
qed

lemma registerUser_consistent:
  assumes "consistent s" and "\<not> occurs (new_id e) s"
  shows "consistent (snd (registerUser e p s))"
  using assms
  by (auto simp: registerUser_def consistent_def relationship_def unique_ids_def occurs_def
        CountDocuments_def hashPassword_def InsertOne_user_def Let_def
      split: option.splits if_splits)

lemma addBook_consistent:
  assumes "consistent s" and "\<not> occurs (new_id e) s"
  shows "consistent (snd (addBook e p s))"
  using assms
  by (auto simp: addBook_def consistent_def relationship_def unique_ids_def occurs_def
        InsertOne_book_def Let_def
      split: option.splits if_splits)

lemma deleteUser_consistent:
  assumes "consistent s"
  shows "consistent (snd (deleteUser e i s))"
proof -
  have sub: "set (delete_first p (userCollection s)) \<subseteq> set (userCollection s)" for p
    by (rule delete_first_subset)
  show ?thesis
    using assms sub
    by (auto simp: deleteUser_def consistent_def relationship_def unique_ids_def
          DeleteOne_def delete_first_distinct
        split: option.splits if_splits)
qed

lemma readers_change_nothing:
  "snd (loginUser e c s) = s" "snd (getUser e i s) = s" "snd (listBooks e s) = s"
  by (auto simp: loginUser_def getUser_def listBooks_def FindOne_def Find_All_def
      split: option.splits sum.splits if_splits)

lemma route_consistent:
  assumes "consistent s" and "\<not> occurs (new_id e) s"
      and "status (fst (route e r s)) \<noteq> StatusInternalServerError"
  shows "consistent (snd (route e r s))"
  using assms
  by (cases r)
     (simp_all add: registerUser_consistent addBook_consistent deleteUser_consistent
        borrowBook_consistent returnBook_consistent readers_change_nothing)

text \<open>
  C2, as the claim states it, fails: the states that the program reaches are not only
  those of requests served one at a time. In the library, alice and bob both ask for
  Emma, and both handlers read the user and the free book before either writes. Both
  answer 200; Emma ends with bob as its borrower while alice's list names it too.
\<close>

theorem relationship_invariant_counterexample:
  "relationship library \<and> unique_ids library
   \<and> fst (interleave reads_first
         (quiet 0, Received (Some \<lparr>user_id = hex_alice, book_id = hex_emma\<rparr>))
         (quiet 0, Received (Some \<lparr>user_id = hex_bob, book_id = hex_emma\<rparr>)) library)
       = Answered (JSON StatusOK (Message Kitap_basariyla_odunc_alindi))
   \<and> fst (snd (interleave reads_first
         (quiet 0, Received (Some \<lparr>user_id = hex_alice, book_id = hex_emma\<rparr>))
         (quiet 0, Received (Some \<lparr>user_id = hex_bob, book_id = hex_emma\<rparr>)) library))
       = Answered (JSON StatusOK (Message Kitap_basariyla_odunc_alindi))
   \<and> snd (snd (interleave reads_first
         (quiet 0, Received (Some \<lparr>user_id = hex_alice, book_id = hex_emma\<rparr>))
         (quiet 0, Received (Some \<lparr>user_id = hex_bob, book_id = hex_emma\<rparr>)) library))
       = \<lparr>userCollection = [alice\<lparr>Books := [10, 11]\<rparr>, bob\<lparr>Books := [11]\<rparr>, carol],
          bookCollection = [dune, emma\<lparr>BorrowerID := Oid 2\<rparr>, faust, germinal]\<rparr>
   \<and> \<not> relationship (snd (snd (interleave reads_first
         (quiet 0, Received (Some \<lparr>user_id = hex_alice, book_id = hex_emma\<rparr>))
         (quiet 0, Received (Some \<lparr>user_id = hex_bob, book_id = hex_emma\<rparr>)) library)))"
  by (simp add: examples handlers relationship_def unique_ids_def)

text \<open>
  C2, amended. Starting from collections that satisfy the relationship and have unique
  identifiers, every sequence of requests served one at a time that \<open>serve_ok\<close>
  accepts (each handler runs to its response before the next request starts, no
  response is a 500, generated identifiers are new) ends in collections that satisfy
  the relationship again. The relationship ranges over the stored users: a book whose
  borrower was deleted keeps naming an identifier that no stored user has, which the
  relationship does not forbid.
\<close>

theorem relationship_invariant:
  assumes "relationship s" and "unique_ids s" and "serve_ok evs s = Some s'"
  shows "relationship s' \<and> unique_ids s'"
proof -
  have "consistent s \<Longrightarrow> serve_ok evs s = Some s' \<Longrightarrow> consistent s'"
  proof (induction evs arbitrary: s)
    case Nil
    then show ?case by simp
  next
    case (Cons a evs)
    obtain e r where a: "a = (e, r)" by (cases a)
    from Cons.prems(2) a have ok: "\<not> occurs (new_id e) s"
        "status (fst (route e r s)) \<noteq> StatusInternalServerError"
        and rest: "serve_ok evs (snd (route e r s)) = Some s'"
      by (auto split: if_splits)
    from route_consistent [OF Cons.prems(1) ok] rest show ?case
      by (rule Cons.IH)
  qed
  with assms show ?thesis
    by (simp add: consistent_def)
qed

text \<open>The thirteen requests of \<open>session\<close> on the empty store.\<close>

lemma session_closing: "serve_ok session empty_db = Some closing"
  by (simp add: examples handlers occurs_def)

theorem relationship_invariant_witness:
  "relationship empty_db \<and> unique_ids empty_db \<and> serve_ok session empty_db = Some closing
   \<and> relationship closing \<and> unique_ids closing"
proof -
  have r: "relationship empty_db" and u: "unique_ids empty_db"
    by (simp_all add: examples relationship_def unique_ids_def)
  have run: "serve_ok session empty_db = Some closing"
    by (rule session_closing)
  from relationship_invariant [OF r u run] r u run show ?thesis
    by blast
qed

text \<open>
  Both conditions of \<open>serve_ok\<close> are needed. A return whose second write fails answers
  500 and leaves a user listing a book that has no borrower; and if an identifier could
  be generated twice, a new user could receive the identifier that an orphaned book
  still names.
\<close>

lemma failed_return_breaks_relationship:
  "consistent library
   \<and> status (fst (returnBook ((quiet 0)\<lparr>update_user_err := True\<rparr>)
                 (Some \<lparr>user_id = hex_alice, book_id = hex_dune\<rparr>) library))
       = StatusInternalServerError
   \<and> \<not> relationship (snd (returnBook ((quiet 0)\<lparr>update_user_err := True\<rparr>)
                 (Some \<lparr>user_id = hex_alice, book_id = hex_dune\<rparr>) library))"
  by (simp add: examples handlers consistent_def relationship_def unique_ids_def)

lemma reused_identifier_breaks_relationship:
  "consistent orphaned \<and> occurs 1 orphaned
   \<and> status (fst (registerUser (quiet 1) (Some \<lparr>username = ''dave'', password = ''pw4''\<rparr>) orphaned))
       = StatusCreated
   \<and> \<not> relationship (snd (registerUser (quiet 1)
                 (Some \<lparr>username = ''dave'', password = ''pw4''\<rparr>) orphaned))"
  by (simp add: examples handlers consistent_def relationship_def unique_ids_def occurs_def)

section \<open>The lending limit\<close>

lemma borrowBook_users:
  assumes "userCollection (snd (borrowBook e p s)) \<noteq> userCollection s"
  obtains uid bid user where
    "find (\<lambda>u. User.ID u = uid) (userCollection s) = Some user"
    "length (Books user) < 2"
    "userCollection (snd (borrowBook e p s)) =
       update_first (\<lambda>u. User.ID u = uid)
         (\<lambda>u. u\<lparr>Books := Books u @ [bid]\<rparr>) (userCollection s)"
  using assms
  by (auto simp: borrowBook_def FindOne_def UpdateOne_def split: option.splits if_splits)

lemma returnBook_users:
  "userCollection (snd (returnBook e p s)) = userCollection s
   \<or> (\<exists>uid bid.
         userCollection (snd (returnBook e p s)) =
             update_first (\<lambda>u. User.ID u = uid)
               (\<lambda>u. u\<lparr>Books := removeAll bid (Books u)\<rparr>) (userCollection s))"
  by (auto simp: returnBook_def FindOne_def UpdateOne_def split: option.splits if_splits)

lemma borrowBook_within_limit:
  assumes "within_limit s"
  shows "within_limit (snd (borrowBook e p s))"
proof (cases "userCollection (snd (borrowBook e p s)) = userCollection s")
  case True
  with assms show ?thesis by (simp add: within_limit_def)
next
  case False
  then obtain uid bid user where
        user: "find (\<lambda>u. User.ID u = uid) (userCollection s) = Some user"
    and few: "length (Books user) < 2"
    and after: "userCollection (snd (borrowBook e p s)) =
             update_first (\<lambda>u. User.ID u = uid)
               (\<lambda>u. u\<lparr>Books := Books u @ [bid]\<rparr>) (userCollection s)"
    by (rule borrowBook_users)
  have "\<forall>y \<in> set (update_first (\<lambda>u. User.ID u = uid)
             (\<lambda>u. u\<lparr>Books := Books u @ [bid]\<rparr>) (userCollection s)). length (Books y) \<le> 2"
  proof (rule update_first_all)
    from assms show "\<forall>y \<in> set (userCollection s). length (Books y) \<le> 2"
      by (simp add: within_limit_def)
  next
    fix x assume "find (\<lambda>u. User.ID u = uid) (userCollection s) = Some x"
    with user few show "length (Books (x\<lparr>Books := Books x @ [bid]\<rparr>)) \<le> 2"
      by simp
  qed
  with after show ?thesis by (simp add: within_limit_def)
qed

lemma returnBook_within_limit:
  assumes "within_limit s"
  shows "within_limit (snd (returnBook e p s))"
proof -
  from returnBook_users [of e p s]
  consider "userCollection (snd (returnBook e p s)) = userCollection s"
    | uid bid where
        "userCollection (snd (returnBook e p s)) =
             update_first (\<lambda>u. User.ID u = uid)
               (\<lambda>u. u\<lparr>Books := removeAll bid (Books u)\<rparr>) (userCollection s)"
    by blast
  then show ?thesis
  proof cases
    case 1
    with assms show ?thesis by (simp add: within_limit_def)
  next
    case 2
    have "\<forall>y \<in> set (update_first (\<lambda>u. User.ID u = uid)
               (\<lambda>u. u\<lparr>Books := removeAll bid (Books u)\<rparr>) (userCollection s)).
             length (Books y) \<le> 2"
    proof (rule update_first_all)
      from assms show all: "\<forall>y \<in> set (userCollection s). length (Books y) \<le> 2"
        by (simp add: within_limit_def)
    next
      fix x assume "find (\<lambda>u. User.ID u = uid) (userCollection s) = Some x"
      then have "x \<in> set (userCollection s)"
        using find_Some_set [of _ "userCollection s" x] by simp
      with assms have small: "length (Books x) \<le> 2"
        by (simp add: within_limit_def)
      have "length (removeAll bid (Books x)) \<le> length (Books x)"
        by simp
      also have "\<dots> \<le> 2" by (rule small)
      finally show "length (Books (x\<lparr>Books := removeAll bid (Books x)\<rparr>)) \<le> 2"
        by simp
    qed
    with 2 show ?thesis by (simp add: within_limit_def)
  qed
qed

lemma registerUser_within_limit:
  "within_limit s \<Longrightarrow> within_limit (snd (registerUser e p s))"
  by (auto simp: registerUser_def within_limit_def CountDocuments_def hashPassword_def
        InsertOne_user_def Let_def split: option.splits if_splits)

lemma deleteUser_within_limit:
  "within_limit s \<Longrightarrow> within_limit (snd (deleteUser e i s))"
  using delete_first_subset [of _ "userCollection s"]
  by (auto simp: deleteUser_def within_limit_def DeleteOne_def split: option.splits if_splits)

lemma addBook_users: "userCollection (snd (addBook e p s)) = userCollection s"
  by (auto simp: addBook_def InsertOne_book_def Let_def split: option.splits if_splits)

lemma route_within_limit:
  "within_limit s \<Longrightarrow> within_limit (snd (route e r s))"
proof (cases r)
  case (POST_book b)
  assume "within_limit s"
  with addBook_users [of e b s] POST_book show ?thesis
    by (simp add: within_limit_def)
qed (simp_all add: registerUser_within_limit deleteUser_within_limit borrowBook_within_limit
       returnBook_within_limit readers_change_nothing)

text \<open>
  C6, as the claim states it, fails for the same reason. alice holds one book and sends
  two borrows, for Emma and for Hamlet; both handlers read her list of length one
  before either appends. Both answer 200 and her list ends with three books.
\<close>

theorem lending_limit_invariant_counterexample:
  "within_limit reading_room \<and> relationship reading_room \<and> unique_ids reading_room
   \<and> fst (interleave reads_first
         (quiet 0, Received (Some \<lparr>user_id = hex_alice, book_id = hex_emma\<rparr>))
         (quiet 0, Received (Some \<lparr>user_id = hex_alice, book_id = hex_hamlet\<rparr>)) reading_room)
       = Answered (JSON StatusOK (Message Kitap_basariyla_odunc_alindi))
   \<and> fst (snd (interleave reads_first
         (quiet 0, Received (Some \<lparr>user_id = hex_alice, book_id = hex_emma\<rparr>))
         (quiet 0, Received (Some \<lparr>user_id = hex_alice, book_id = hex_hamlet\<rparr>)) reading_room))
       = Answered (JSON StatusOK (Message Kitap_basariyla_odunc_alindi))
   \<and> map Books (userCollection (snd (snd (interleave reads_first
         (quiet 0, Received (Some \<lparr>user_id = hex_alice, book_id = hex_emma\<rparr>))
         (quiet 0, Received (Some \<lparr>user_id = hex_alice, book_id = hex_hamlet\<rparr>)) reading_room))))
       = [[10, 11, 14], [], [12, 13]]
   \<and> \<not> within_limit (snd (snd (interleave reads_first
         (quiet 0, Received (Some \<lparr>user_id = hex_alice, book_id = hex_emma\<rparr>))
         (quiet 0, Received (Some \<lparr>user_id = hex_alice, book_id = hex_hamlet\<rparr>)) reading_room)))"
  by (simp add: examples handlers within_limit_def relationship_def unique_ids_def)

text \<open>
  C6, amended. If every stored user lists at most two books, then so does every stored
  user after any sequence of requests served one at a time, whatever their outcomes:
  registration creates an empty list, a borrow appends only to a list it has read with
  fewer than two entries, a return only removes entries, and the other handlers write
  no list.
\<close>

theorem lending_limit_invariant:
  assumes "within_limit s"
  shows "within_limit (serve evs s)"
  using assms
proof (induction evs arbitrary: s)
  case Nil
  then show ?case by simp
next
  case (Cons a evs)
  obtain e r where "a = (e, r)" by (cases a)
  with Cons show ?case
    by (simp add: route_within_limit)
qed

text \<open>
  The first seven requests of \<open>session\<close>: alice borrows Dune and Emma, and her third
  borrow is refused.
\<close>

theorem lending_limit_invariant_witness:
  "within_limit empty_db
   \<and> within_limit (serve (take 7 session) empty_db)
   \<and> map Books (userCollection (serve (take 7 session) empty_db)) = [[10, 11]]"
proof -
  have start: "within_limit empty_db"
    by (simp add: examples within_limit_def)
  have "map Books (userCollection (serve (take 7 session) empty_db)) = [[10, 11]]"
    by (simp add: examples handlers)
  with lending_limit_invariant [OF start, of "take 7 session"] start show ?thesis
    by blast
qed

end
